theory Spec2Isabelle
  imports Main "HOL-Library.Word" "HOL-Library.AList"
begin

unbundle bit_operations_syntax

section \<open>Halide types (the part of Type.h the verified code relies on)\<close>

text \<open>
  A Halide \<open>Type\<close> is a type code, a bit width and a lane count.  The header that declares
  it is not part of the verified sources, so its small accessors are taken from the data model
  of the specification.
\<close>

datatype halide_type_code_t =
  halide_type_int | halide_type_uint | halide_type_float | halide_type_handle | halide_type_bfloat

record Type =
  code :: halide_type_code_t
  bits :: nat
  lanes :: nat

text \<open>Modelled from the spec: the constructors \<open>Int(bits, lanes)\<close>, \<open>UInt(bits, lanes)\<close>,
  \<open>Bool()\<close> and \<open>Handle()\<close> of Type.h, which is missing.\<close>

definition Int_t :: "nat \<Rightarrow> nat \<Rightarrow> Type" where
  "Int_t b l = \<lparr>code = halide_type_int, bits = b, lanes = l\<rparr>"

definition UInt_t :: "nat \<Rightarrow> nat \<Rightarrow> Type" where
  "UInt_t b l = \<lparr>code = halide_type_uint, bits = b, lanes = l\<rparr>"

definition Bool_t :: "Type" where
  "Bool_t = UInt_t 1 1"

definition Handle_t :: "Type" where
  "Handle_t = \<lparr>code = halide_type_handle, bits = 64, lanes = 1\<rparr>"

text \<open>Modelled from the spec: the predicates and derived operations of Type.h, which is
  missing (\<open>narrow\<close> halves bits, \<open>widen\<close> doubles bits, \<open>with_code\<close>, \<open>with_lanes\<close>,
  \<open>bytes = ceil(bits*lanes/8)\<close>; bool is the 1-bit unsigned type).\<close>

definition is_int :: "Type \<Rightarrow> bool" where
  "is_int t = (code t = halide_type_int)"

definition is_uint :: "Type \<Rightarrow> bool" where
  "is_uint t = (code t = halide_type_uint)"

definition is_int_or_uint :: "Type \<Rightarrow> bool" where
  "is_int_or_uint t = (is_int t \<or> is_uint t)"

definition is_float :: "Type \<Rightarrow> bool" where
  "is_float t = (code t = halide_type_float \<or> code t = halide_type_bfloat)"

definition is_handle :: "Type \<Rightarrow> bool" where
  "is_handle t = (code t = halide_type_handle)"

definition is_bool :: "Type \<Rightarrow> bool" where
  "is_bool t = (code t = halide_type_uint \<and> bits t = 1)"

definition is_vector :: "Type \<Rightarrow> bool" where
  "is_vector t = (lanes t > 1)"

definition with_code :: "Type \<Rightarrow> halide_type_code_t \<Rightarrow> Type" where
  "with_code t c = t\<lparr>code := c\<rparr>"

definition with_bits :: "Type \<Rightarrow> nat \<Rightarrow> Type" where
  "with_bits t b = t\<lparr>bits := b\<rparr>"

definition with_lanes :: "Type \<Rightarrow> nat \<Rightarrow> Type" where
  "with_lanes t l = t\<lparr>lanes := l\<rparr>"

definition element_of :: "Type \<Rightarrow> Type" where
  "element_of t = with_lanes t 1"

definition widen_t :: "Type \<Rightarrow> Type" where
  "widen_t t = with_bits t (bits t * 2)"

definition narrow_t :: "Type \<Rightarrow> Type" where
  "narrow_t t = with_bits t (bits t div 2)"

definition bytes :: "Type \<Rightarrow> nat" where
  "bytes t = (bits t * lanes t + 7) div 8"



section \<open>The SPIR-V module builder (SpirvIR.cpp)\<close>

subsection \<open>Instructions, blocks and functions\<close>

text \<open>
  Ids are the 32-bit words of \<open>SpvId\<close>.  The sentinels \<open>SpvNoResult\<close>, \<open>SpvNoType\<close> and
  \<open>SpvInvalidId\<close> are declared in a header outside the verified sources; an absent result or
  type id and a failed lookup are modelled by \<open>None\<close>.  Opcodes, kinds and capabilities are
  the named enumerators the code uses; enumerators no modelled function names are collected in
  one constructor carrying the numeric value.
\<close>

type_synonym SpvId = "32 word"
type_synonym SpvStorageClass = "32 word"

datatype SpvOp =
    SpvOpNop | SpvOpLabel
  | SpvOpTypeVoid | SpvOpTypeBool | SpvOpTypeInt | SpvOpTypeFloat | SpvOpTypeVector
  | SpvOpTypeArray | SpvOpTypePointer | SpvOpConstant | SpvOpVariable
  | SpvOpIAdd | SpvOpLoad | SpvOpStore | SpvOpLoopMerge
  | SpvOpSLessThanEqual | SpvOpULessThanEqual
  | SpvOpBranch | SpvOpBranchConditional | SpvOpSwitch | SpvOpKill
  | SpvOpReturn | SpvOpReturnValue | SpvOpUnreachable
  | SpvOpOther nat

record SpvInstruction =
  op_code :: SpvOp
  result_id :: "SpvId option"
  type_id :: "SpvId option"
  operands :: "SpvId list"
  immediates :: "bool list"

definition SpvInstruction_make :: "SpvOp \<Rightarrow> SpvInstruction" where
  "SpvInstruction_make op =
     \<lparr>op_code = op, result_id = None, type_id = None, operands = [], immediates = []\<rparr>"

definition set_result_id :: "SpvId \<Rightarrow> SpvInstruction \<Rightarrow> SpvInstruction" where
  "set_result_id r inst = inst\<lparr>result_id := Some r\<rparr>"

definition set_type_id :: "SpvId \<Rightarrow> SpvInstruction \<Rightarrow> SpvInstruction" where
  "set_type_id t inst = inst\<lparr>type_id := Some t\<rparr>"

definition add_operand :: "SpvId \<Rightarrow> SpvInstruction \<Rightarrow> SpvInstruction" where
  "add_operand i inst = inst\<lparr>operands := operands inst @ [i], immediates := immediates inst @ [False]\<rparr>"

definition add_immediate :: "SpvId \<Rightarrow> SpvInstruction \<Rightarrow> SpvInstruction" where
  "add_immediate i inst = inst\<lparr>operands := operands inst @ [i], immediates := immediates inst @ [True]\<rparr>"

text \<open>\<open>add_data\<close> copies the bytes four at a time into zero-initialised words with
  \<open>memcpy\<close>; the model reads them as the little-endian host does.\<close>

fun le_word :: "8 word list \<Rightarrow> 32 word" where
  "le_word [] = 0"
| "le_word (b # bs) = ucast b OR push_bit 8 (le_word bs)"

fun add_data_words :: "nat \<Rightarrow> 8 word list \<Rightarrow> 32 word list" where
  "add_data_words 0 bs = []"
| "add_data_words (Suc n) bs = le_word (take 4 bs) # add_data_words n (drop 4 bs)"

definition add_data :: "8 word list \<Rightarrow> SpvInstruction \<Rightarrow> SpvInstruction" where
  "add_data bs inst = fold add_immediate (add_data_words ((length bs + 3) div 4) bs) inst"

text \<open>The factory methods used by the modelled builder functions.\<close>

definition void_type :: "SpvId \<Rightarrow> SpvInstruction" where
  "void_type void_type_id = set_result_id void_type_id (SpvInstruction_make SpvOpTypeVoid)"

definition bool_type :: "SpvId \<Rightarrow> SpvInstruction" where
  "bool_type bool_type_id = set_result_id bool_type_id (SpvInstruction_make SpvOpTypeBool)"

definition integer_type :: "SpvId \<Rightarrow> 32 word \<Rightarrow> 32 word \<Rightarrow> SpvInstruction" where
  "integer_type int_type_id bts signedness =
     add_immediate signedness (add_immediate bts
       (set_result_id int_type_id (SpvInstruction_make SpvOpTypeInt)))"

definition float_type :: "SpvId \<Rightarrow> 32 word \<Rightarrow> SpvInstruction" where
  "float_type float_type_id bts =
     add_immediate bts (set_result_id float_type_id (SpvInstruction_make SpvOpTypeFloat))"

definition vector_type :: "SpvId \<Rightarrow> SpvId \<Rightarrow> 32 word \<Rightarrow> SpvInstruction" where
  "vector_type vector_type_id element_type_id vector_size =
     add_immediate vector_size (add_operand element_type_id
       (set_result_id vector_type_id (SpvInstruction_make SpvOpTypeVector)))"

definition array_type :: "SpvId \<Rightarrow> SpvId \<Rightarrow> SpvId \<Rightarrow> SpvInstruction" where
  "array_type array_type_id element_type_id array_size_id =
     add_operand array_size_id (add_operand element_type_id
       (set_result_id array_type_id (SpvInstruction_make SpvOpTypeArray)))"

definition pointer_type :: "SpvId \<Rightarrow> SpvStorageClass \<Rightarrow> SpvId \<Rightarrow> SpvInstruction" where
  "pointer_type pointer_type_id storage_class base_type_id =
     add_operand base_type_id (add_immediate storage_class
       (set_result_id pointer_type_id (SpvInstruction_make SpvOpTypePointer)))"

definition SpvFactory_constant :: "SpvId \<Rightarrow> SpvId \<Rightarrow> 8 word list \<Rightarrow> SpvInstruction" where
  "SpvFactory_constant res_id ty_id data =
     add_data data (set_result_id res_id (set_type_id ty_id (SpvInstruction_make SpvOpConstant)))"

definition branch :: "SpvId \<Rightarrow> SpvInstruction" where
  "branch target_label_id = add_operand target_label_id (SpvInstruction_make SpvOpBranch)"

text \<open>
  \<open>SpvBlock\<close> and \<open>SpvFunction\<close> are reference-counted handles in the source; the model
  works on the contents they point to.  The back pointers (an instruction's block, a block's
  function) are not represented, and a block handed to \<open>add_block\<close> is taken to be an object
  of its own, not one already in the function.
\<close>

record SpvBlock =
  block_id :: SpvId
  instructions :: "SpvInstruction list"
  variables :: "SpvInstruction list"

record SpvFunction =
  function_id :: SpvId
  function_type_id :: SpvId
  return_type_id :: SpvId
  control_mask :: "32 word"
  parameters :: "SpvInstruction list"
  blocks :: "SpvBlock list"

definition SpvBlock_make :: "SpvId \<Rightarrow> SpvBlock" where
  "SpvBlock_make bid = \<lparr>block_id = bid, instructions = [], variables = []\<rparr>"

definition add_instruction :: "SpvInstruction \<Rightarrow> SpvBlock \<Rightarrow> SpvBlock" where
  "add_instruction inst blk = blk\<lparr>instructions := instructions blk @ [inst]\<rparr>"


text \<open>
  \<open>SpvBlock::is_terminated\<close> switches on \<open>instructions.back().op_code()\<close> without testing
  for emptiness.  \<open>back()\<close> of an empty vector is undefined behaviour; the model returns
  \<open>None\<close> there.
\<close>

definition is_terminated :: "SpvBlock \<Rightarrow> bool option" where
  "is_terminated blk =
     (if instructions blk = [] then None
      else Some (case op_code (last (instructions blk)) of
                   SpvOpBranch \<Rightarrow> True
                 | SpvOpBranchConditional \<Rightarrow> True
                 | SpvOpSwitch \<Rightarrow> True
                 | SpvOpKill \<Rightarrow> True
                 | SpvOpReturn \<Rightarrow> True
                 | SpvOpReturnValue \<Rightarrow> True
                 | SpvOpUnreachable \<Rightarrow> True
                 | _ \<Rightarrow> False))"

text \<open>\<open>tail_block\<close> is \<open>blocks.back()\<close>; both callers test \<open>blocks.empty()\<close> first.\<close>

definition tail_block :: "SpvFunction \<Rightarrow> SpvBlock" where
  "tail_block f = last (blocks f)"

definition branch_from_tail :: "SpvFunction \<Rightarrow> SpvId \<Rightarrow> SpvFunction option" where
  "branch_from_tail f target =
     (if blocks f \<noteq> [] then
        (case is_terminated (tail_block f) of
           None \<Rightarrow> None
         | Some True \<Rightarrow> Some f
         | Some False \<Rightarrow>
             Some (f\<lparr>blocks := butlast (blocks f) @ [add_instruction (branch target) (tail_block f)]\<rparr>))
      else Some f)"

definition add_block :: "SpvFunction \<Rightarrow> SpvBlock \<Rightarrow> SpvFunction option" where
  "add_block f blk =
     (case branch_from_tail f (block_id blk) of
        None \<Rightarrow> None
      | Some f' \<Rightarrow> Some (f'\<lparr>blocks := blocks f' @ [blk]\<rparr>))"

definition create_block :: "SpvFunction \<Rightarrow> SpvId \<Rightarrow> (SpvFunction \<times> SpvBlock) option" where
  "create_block f bid =
     (case branch_from_tail f bid of
        None \<Rightarrow> None
      | Some f' \<Rightarrow> Some (f'\<lparr>blocks := blocks f' @ [SpvBlock_make bid]\<rparr>, SpvBlock_make bid))"


subsection \<open>Module and builder state\<close>

datatype SpvCapability =
    SpvCapabilityInt8 | SpvCapabilityInt16 | SpvCapabilityInt64
  | SpvCapabilityFloat16 | SpvCapabilityFloat64 | SpvCapabilityKernel
  | SpvCapabilityOther nat

datatype SpvKind =
    SpvInvalidItem | SpvTypeId | SpvVoidTypeId | SpvBoolTypeId | SpvIntTypeId | SpvFloatTypeId
  | SpvVectorTypeId | SpvArrayTypeId | SpvRuntimeArrayTypeId | SpvStringTypeId
  | SpvPointerTypeId | SpvStructTypeId | SpvFunctionTypeId | SpvAccessChainId
  | SpvConstantId | SpvBoolConstantId | SpvIntConstantId | SpvFloatConstantId
  | SpvStringConstantId | SpvCompositeConstantId | SpvResultId | SpvVariableId
  | SpvInstructionId | SpvFunctionId | SpvBlockId | SpvLabelId | SpvParameterId
  | SpvImportId | SpvModuleId | SpvUnknownItem

text \<open>
  The module keeps, of the sections of \<open>SpvModuleContents\<close>, those the modelled builder
  functions read or write: the id bound, the capability and extension sets, the type and
  constant sections and the function list (by function id).
\<close>

record SpvModule =
  module_id :: SpvId
  binding_count :: "32 word"
  capabilities :: "SpvCapability set"
  extensions :: "string set"
  types :: "SpvInstruction list"
  constants :: "SpvInstruction list"
  function_ids :: "SpvId list"

definition SpvModule_make :: "SpvId \<Rightarrow> SpvModule" where
  "SpvModule_make mid =
     \<lparr>module_id = mid, binding_count = 0, capabilities = {}, extensions = {},
      types = [], constants = [], function_ids = []\<rparr>"

definition module_add_type :: "SpvInstruction \<Rightarrow> SpvModule \<Rightarrow> SpvModule" where
  "module_add_type val m = m\<lparr>types := types m @ [val]\<rparr>"

definition module_add_constant :: "SpvInstruction \<Rightarrow> SpvModule \<Rightarrow> SpvModule" where
  "module_add_constant val m = m\<lparr>constants := constants m @ [val]\<rparr>"

definition set_binding_count :: "32 word \<Rightarrow> SpvModule \<Rightarrow> SpvModule" where
  "set_binding_count val m = m\<lparr>binding_count := val\<rparr>"

definition is_capability_required :: "SpvModule \<Rightarrow> SpvCapability \<Rightarrow> bool" where
  "is_capability_required m c = (c \<in> capabilities m)"

definition require_capability :: "SpvCapability \<Rightarrow> SpvModule \<Rightarrow> SpvModule" where
  "require_capability c m =
     (if c \<notin> capabilities m then m\<lparr>capabilities := insert c (capabilities m)\<rparr> else m)"

definition require_extension :: "string \<Rightarrow> SpvModule \<Rightarrow> SpvModule" where
  "require_extension e m =
     (if e \<notin> extensions m then m\<lparr>extensions := insert e (extensions m)\<rparr> else m)"

text \<open>
  The builder's hash maps are association lists with distinct keys: \<open>m[k] = v\<close> is
  \<open>AList.update k v m\<close>, \<open>m.find(k)\<close> is \<open>map_of m k\<close> and \<open>m.size()\<close> is the length.
  Function and block handles are ids into \<open>function_map\<close>, which holds the contents.
\<close>

record SpvBuilder =
  kind_map :: "(SpvId \<times> SpvKind) list"
  type_map :: "(64 word \<times> SpvId) list"
  struct_map :: "(64 word \<times> SpvId) list"
  scope_map :: "(SpvId \<times> SpvId) list"
  string_map :: "(64 word \<times> SpvId) list"
  constant_map :: "(64 word \<times> SpvId) list"
  function_map :: "(SpvId \<times> SpvFunction) list"
  id_symbol_map :: "(SpvId \<times> string) list"
  symbol_id_map :: "(string \<times> SpvId) list"
  base_type_map :: "(SpvId \<times> SpvId) list"
  storage_class_map :: "(SpvId \<times> SpvStorageClass) list"
  pointer_type_map :: "((SpvId \<times> SpvStorageClass) \<times> SpvId) list"
  variable_type_map :: "(SpvId \<times> SpvId) list"
  function_type_map :: "(64 word \<times> SpvId) list"
  active_id :: "SpvId option"
  active_block :: "SpvId option"
  active_function :: "SpvId option"
  module :: SpvModule

definition make_id :: "SpvKind \<Rightarrow> SpvBuilder \<Rightarrow> SpvId \<times> SpvBuilder" where
  "make_id kind b =
     (let item_id = (word_of_nat (length (kind_map b) + 1) :: SpvId)
      in (item_id, b\<lparr>kind_map := AList.update item_id kind (kind_map b)\<rparr>))"

definition reserve_id :: "SpvKind \<Rightarrow> SpvBuilder \<Rightarrow> SpvId \<times> SpvBuilder" where
  "reserve_id kind b = make_id kind b"

text \<open>\<open>reset\<close> clears every map and allocates the module's own id first.\<close>

definition reset :: "SpvBuilder" where
  "reset =
     (let cleared = \<lparr>kind_map = [], type_map = [], struct_map = [], scope_map = [],
                     string_map = [], constant_map = [], function_map = [], id_symbol_map = [],
                     symbol_id_map = [], base_type_map = [], storage_class_map = [],
                     pointer_type_map = [], variable_type_map = [], function_type_map = [],
                     active_id = None, active_block = None, active_function = None,
                     module = SpvModule_make 0\<rparr>
      in case make_id SpvModuleId cleared of
           (mid, b) \<Rightarrow> b\<lparr>module := SpvModule_make mid\<rparr>)"

definition kind_of :: "SpvBuilder \<Rightarrow> SpvId \<Rightarrow> SpvKind" where
  "kind_of b item_id = (case map_of (kind_map b) item_id of Some k \<Rightarrow> k | None \<Rightarrow> SpvInvalidItem)"

definition finalize :: "SpvBuilder \<Rightarrow> SpvBuilder" where
  "finalize b =
     (let last_id = (word_of_nat (length (kind_map b) + 1) :: SpvId);
          m1 = set_binding_count last_id (module b);
          m2 = (if is_capability_required m1 SpvCapabilityInt8
                then require_extension ''SPV_KHR_8bit_storage'' m1 else m1);
          m3 = (if is_capability_required m2 SpvCapabilityInt16
                then require_extension ''SPV_KHR_16bit_storage'' m2 else m2)
      in b\<lparr>module := m3\<rparr>)"

subsection \<open>Type and pointer-type declarations\<close>

definition hash_splitmix64 :: "64 word \<Rightarrow> 64 word" where
  "hash_splitmix64 x =
     (let x1 = x + 0x9e3779b97f4a7c15;
          x2 = (x1 XOR drop_bit 30 x1) * 0xbf58476d1ce4e5b9;
          x3 = (x2 XOR drop_bit 27 x2) * 0x94d049bb133111eb
      in x3 XOR drop_bit 31 x3)"

definition rotl :: "64 word \<Rightarrow> 64 word \<Rightarrow> 64 word" where
  "rotl n i =
     (let m = (63 :: 64 word); c = i AND m
      in push_bit (unat c) n OR drop_bit (unat ((0 - c) AND m)) n)"

definition hash_combine :: "64 word \<Rightarrow> 64 word \<Rightarrow> 64 word" where
  "hash_combine seed v = rotl seed 21 XOR hash_splitmix64 v"

text \<open>The numeric values of the type codes are those of the runtime's
  \<open>halide_type_code_t\<close> enumeration.\<close>

fun code_value :: "halide_type_code_t \<Rightarrow> 64 word" where
  "code_value halide_type_int = 0"
| "code_value halide_type_uint = 1"
| "code_value halide_type_float = 2"
| "code_value halide_type_handle = 3"
| "code_value halide_type_bfloat = 4"

definition make_type_key :: "Type \<Rightarrow> 32 word \<Rightarrow> 64 word" where
  "make_type_key t array_size =
     (let key = hash_splitmix64 (code_value (code t));
          key = hash_combine key (word_of_nat (bits t));
          key = hash_combine key (word_of_nat (lanes t));
          key = hash_combine key (word_of_nat (bytes t))
      in hash_combine key (ucast array_size))"

definition make_constant_key :: "Type \<Rightarrow> 8 word list \<Rightarrow> 64 word" where
  "make_constant_key t data =
     (let key = hash_splitmix64 (code_value (code t));
          key = hash_combine key (word_of_nat (bits t));
          key = hash_combine key (word_of_nat (lanes t));
          key = hash_combine key (word_of_nat (bytes t))
      in fold (\<lambda>byte k. hash_combine k (scast byte)) (take (bytes t) data) key)"

definition lookup_type :: "SpvBuilder \<Rightarrow> Type \<Rightarrow> 32 word \<Rightarrow> SpvId option" where
  "lookup_type b t array_size = map_of (type_map b) (make_type_key t array_size)"

datatype error = InternalError string | UserError string

definition le_bytes32 :: "32 word \<Rightarrow> 8 word list" where
  "le_bytes32 w = [ucast w, ucast (drop_bit 8 w), ucast (drop_bit 16 w), ucast (drop_bit 24 w)]"

text \<open>
  \<open>add_type\<close> recurses from an array type to its size constant's type and its element type,
  and from a vector type to its element type; the default array size of the recursive calls
  and of \<open>declare_type\<close> is 1.
\<close>

function add_type :: "Type \<Rightarrow> 32 word \<Rightarrow> SpvBuilder \<Rightarrow> error + (SpvId \<times> SpvBuilder)" where
  "add_type t array_size b =
     (case map_of (type_map b) (make_type_key t array_size) of
        Some found \<Rightarrow> Inr (found, b)
      | None \<Rightarrow>
          if array_size > 1 then
            (case make_id SpvIntConstantId b of
               (array_size_id, b1) \<Rightarrow>
                 (case add_type (UInt_t 32 1) 1 b1 of
                    Inl e \<Rightarrow> Inl e
                  | Inr (array_size_type_id, b2) \<Rightarrow>
                      (case make_id SpvArrayTypeId
                              (b2\<lparr>module := module_add_type
                                     (SpvFactory_constant array_size_id array_size_type_id
                                        (take (bytes (UInt_t 32 1)) (le_bytes32 array_size)))
                                     (module b2),
                                   constant_map := AList.update
                                     (make_constant_key (UInt_t 32 1) (le_bytes32 array_size))
                                     array_size_id (constant_map b2)\<rparr>) of
                         (array_type_id, b3) \<Rightarrow>
                           (case add_type t 1 b3 of
                              Inl e \<Rightarrow> Inl e
                            | Inr (element_type_id, b4) \<Rightarrow>
                                Inr (array_type_id,
                                     b4\<lparr>module := module_add_type
                                            (array_type array_type_id element_type_id array_size_id)
                                            (module b4),
                                         type_map := AList.update (make_type_key t array_size)
                                            array_type_id (type_map b4)\<rparr>)))))
          else if is_vector t then
            (case make_id SpvVectorTypeId b of
               (tid, b1) \<Rightarrow>
                 (case add_type (with_lanes t 1) 1 b1 of
                    Inl e \<Rightarrow> Inl e
                  | Inr (element_type_id, b2) \<Rightarrow>
                      Inr (tid,
                           b2\<lparr>module := module_add_type
                                  (vector_type tid element_type_id (word_of_nat (lanes t)))
                                  (module b2),
                               type_map := AList.update (make_type_key t array_size) tid
                                  (type_map b2)\<rparr>)))
          else if is_handle t then
            (case make_id SpvVoidTypeId b of
               (tid, b1) \<Rightarrow>
                 Inr (tid, b1\<lparr>module := module_add_type (void_type tid) (module b1),
                              type_map := AList.update (make_type_key t array_size) tid
                                 (type_map b1)\<rparr>))
          else if is_bool t then
            (case make_id SpvBoolTypeId b of
               (tid, b1) \<Rightarrow>
                 Inr (tid, b1\<lparr>module := module_add_type (bool_type tid) (module b1),
                              type_map := AList.update (make_type_key t array_size) tid
                                 (type_map b1)\<rparr>))
          else if is_float t then
            (case make_id SpvFloatTypeId b of
               (tid, b1) \<Rightarrow>
                 (let m1 = module_add_type (float_type tid (word_of_nat (bits t))) (module b1);
                      m2 = (if bits t = 16 then require_capability SpvCapabilityFloat16 m1
                            else if bits t = 64 then require_capability SpvCapabilityFloat64 m1
                            else m1)
                  in Inr (tid, b1\<lparr>module := m2,
                                  type_map := AList.update (make_type_key t array_size) tid
                                     (type_map b1)\<rparr>)))
          else if is_int_or_uint t then
            (let signedness_support = (\<not> is_capability_required (module b) SpvCapabilityKernel);
                 signedness = (if signedness_support then (if is_uint t then 0 else 1) else 0)
             in case make_id SpvIntTypeId b of
                  (tid, b1) \<Rightarrow>
                    (let m1 = module_add_type (integer_type tid (word_of_nat (bits t)) signedness)
                                (module b1);
                         m2 = (if bits t = 8 then require_capability SpvCapabilityInt8 m1
                               else if bits t = 16 then require_capability SpvCapabilityInt16 m1
                               else if bits t = 64 then require_capability SpvCapabilityInt64 m1
                               else m1)
                     in Inr (tid, b1\<lparr>module := m2,
                                     type_map := AList.update (make_type_key t array_size) tid
                                        (type_map b1)\<rparr>)))
          else Inl (InternalError ''SPIRV: Unsupported type''))"
  by pat_completeness auto
termination
  by (relation "measure (\<lambda>(t, array_size, b).
        (if array_size > 1 then 2 else 0) + (if is_vector t then 1 else 0))")
     (auto simp: is_vector_def with_lanes_def UInt_t_def)

declare add_type.simps [simp del]

definition declare_type :: "Type \<Rightarrow> 32 word \<Rightarrow> SpvBuilder \<Rightarrow> error + (SpvId \<times> SpvBuilder)" where
  "declare_type t array_size b =
     (case lookup_type b t array_size of
        Some tid \<Rightarrow> Inr (tid, b)
      | None \<Rightarrow> add_type t array_size b)"


text \<open>
  The pointer-type functions are overloaded in the source on the base (a \<open>Type\<close> or a type
  id); the overloads on an id carry the suffix \<open>_id\<close>.  \<open>declare_pointer_type\<close> on a
  \<open>Type\<close> passes the id it has just compared with \<open>SpvInvalidId\<close> on to
  \<open>add_pointer_type\<close> as the base type id; the value of that sentinel is a parameter.
\<close>

definition lookup_pointer_type_id :: "SpvBuilder \<Rightarrow> SpvId \<Rightarrow> SpvStorageClass \<Rightarrow> SpvId option" where
  "lookup_pointer_type_id b base_type_id storage_class =
     map_of (pointer_type_map b) (base_type_id, storage_class)"

definition lookup_pointer_type :: "SpvBuilder \<Rightarrow> Type \<Rightarrow> SpvStorageClass \<Rightarrow> error + SpvId option" where
  "lookup_pointer_type b t storage_class =
     (case lookup_type b t 1 of
        None \<Rightarrow> Inl (InternalError ''SPIRV: Attempted to lookup pointer type for undeclared base type!'')
      | Some base_type_id \<Rightarrow> Inr (lookup_pointer_type_id b base_type_id storage_class))"

definition add_pointer_type_id :: "SpvId \<Rightarrow> SpvStorageClass \<Rightarrow> SpvBuilder \<Rightarrow> SpvId \<times> SpvBuilder" where
  "add_pointer_type_id base_type_id storage_class b =
     (case map_of (pointer_type_map b) (base_type_id, storage_class) of
        Some found \<Rightarrow> (found, b)
      | None \<Rightarrow>
          (case make_id SpvPointerTypeId b of
             (pointer_type_id, b1) \<Rightarrow>
               (pointer_type_id,
                b1\<lparr>module := module_add_type
                       (pointer_type pointer_type_id storage_class base_type_id) (module b1),
                    pointer_type_map := AList.update (base_type_id, storage_class) pointer_type_id
                       (pointer_type_map b1),
                    storage_class_map := AList.update pointer_type_id storage_class
                       (storage_class_map b1),
                    base_type_map := AList.update pointer_type_id base_type_id
                       (base_type_map b1)\<rparr>)))"

definition add_pointer_type :: "Type \<Rightarrow> SpvStorageClass \<Rightarrow> SpvBuilder \<Rightarrow> error + (SpvId \<times> SpvBuilder)" where
  "add_pointer_type t storage_class b =
     (case declare_type t 1 b of
        Inl e \<Rightarrow> Inl e
      | Inr (base_type_id, b1) \<Rightarrow> Inr (add_pointer_type_id base_type_id storage_class b1))"

definition declare_pointer_type ::
  "SpvId \<Rightarrow> Type \<Rightarrow> SpvStorageClass \<Rightarrow> SpvBuilder \<Rightarrow> error + (SpvId \<times> SpvBuilder)" where
  "declare_pointer_type SpvInvalidId t storage_class b =
     (case lookup_pointer_type b t storage_class of
        Inl e \<Rightarrow> Inl e
      | Inr (Some ptr_type_id) \<Rightarrow> Inr (ptr_type_id, b)
      | Inr None \<Rightarrow> Inr (add_pointer_type_id SpvInvalidId storage_class b))"

definition declare_pointer_type_id :: "SpvId \<Rightarrow> SpvStorageClass \<Rightarrow> SpvBuilder \<Rightarrow> SpvId \<times> SpvBuilder" where
  "declare_pointer_type_id tid storage_class b =
     (case lookup_pointer_type_id b tid storage_class of
        Some ptr_type_id \<Rightarrow> (ptr_type_id, b)
      | None \<Rightarrow> add_pointer_type_id tid storage_class b)"

definition lookup_base_type :: "SpvBuilder \<Rightarrow> SpvId \<Rightarrow> SpvId option" where
  "lookup_base_type b ptr = map_of (base_type_map b) ptr"


subsection \<open>Builder sessions and the invariants of reachable builder states\<close>

text \<open>
  A session is \<open>reset\<close> followed by calls of the modelled id-allocating operations; it stops
  at the first internal error.
\<close>

datatype builder_op =
    OpReserveId SpvKind
  | OpDeclareType Type "32 word"
  | OpAddPointerType Type SpvStorageClass
  | OpDeclarePointerType Type SpvStorageClass
  | OpDeclarePointerTypeId SpvId SpvStorageClass

fun apply_op :: "SpvId \<Rightarrow> builder_op \<Rightarrow> SpvBuilder \<Rightarrow> error + SpvBuilder" where
  "apply_op invalid (OpReserveId k) b = Inr (snd (reserve_id k b))"
| "apply_op invalid (OpDeclareType t n) b = map_sum id snd (declare_type t n b)"
| "apply_op invalid (OpAddPointerType t sc) b = map_sum id snd (add_pointer_type t sc b)"
| "apply_op invalid (OpDeclarePointerType t sc) b = map_sum id snd (declare_pointer_type invalid t sc b)"
| "apply_op invalid (OpDeclarePointerTypeId i sc) b = Inr (snd (declare_pointer_type_id i sc b))"

fun run_ops :: "SpvId \<Rightarrow> builder_op list \<Rightarrow> SpvBuilder \<Rightarrow> error + SpvBuilder" where
  "run_ops invalid [] b = Inr b"
| "run_ops invalid (x # xs) b =
     (case apply_op invalid x b of Inl e \<Rightarrow> Inl e | Inr b' \<Rightarrow> run_ops invalid xs b')"

definition session :: "SpvId \<Rightarrow> builder_op list \<Rightarrow> error + SpvBuilder" where
  "session invalid ops = run_ops invalid ops reset"

text \<open>\<open>allocs ks m\<close> is the kind map after one \<open>make_id\<close> for each kind of \<open>ks\<close>;
  \<open>ids_consecutive m\<close> says that the keys of \<open>m\<close> are, in allocation order, 1, 2, 3, ...\<close>

definition allocs :: "SpvKind list \<Rightarrow> (SpvId \<times> SpvKind) list \<Rightarrow> (SpvId \<times> SpvKind) list" where
  "allocs ks m = fold (\<lambda>k m. AList.update (word_of_nat (length m + 1)) k m) ks m"

definition ids_consecutive :: "(SpvId \<times> SpvKind) list \<Rightarrow> bool" where
  "ids_consecutive m = (map fst m = map (\<lambda>i. word_of_nat (i + 1)) [0..<length m])"

definition kind_ext :: "SpvBuilder \<Rightarrow> SpvBuilder \<Rightarrow> bool" where
  "kind_ext b b' = (\<exists>ks. kind_map b' = allocs ks (kind_map b))"

definition wf_builder :: "SpvBuilder \<Rightarrow> bool" where
  "wf_builder b =
     (ids_consecutive (kind_map b) \<and>
      fst ` set (base_type_map b) \<subseteq> fst ` set (kind_map b) \<and>
      (\<forall>base sc p. map_of (pointer_type_map b) (base, sc) = Some p \<longrightarrow>
                   map_of (base_type_map b) p = Some base))"

text \<open>The opcodes \<open>is_terminated\<close> accepts as the end of a block.\<close>

definition is_terminator :: "SpvOp \<Rightarrow> bool" where
  "is_terminator op = (op \<in> {SpvOpBranch, SpvOpBranchConditional, SpvOpSwitch, SpvOpKill,
                               SpvOpReturn, SpvOpReturnValue, SpvOpUnreachable})"


section \<open>The expression IR\<close>

text \<open>
  Expressions are the tagged variant of the data model; every node carries or determines its
  static type.  The declarations (IR.h, IROperator.h) are not among the verified sources, so
  the node kinds follow the specification's list and the constructors named in the sources.
  Intrinsic calls are \<open>Call\<close> nodes whose name is one of the enumerators of
  \<open>Call::IntrinsicOp\<close>; any other call carries its name as a string.
\<close>

datatype IntrinsicOp =
    Call_abs | Call_absd
  | Call_bitwise_and | Call_bitwise_not | Call_bitwise_or | Call_bitwise_xor
  | Call_halving_add | Call_halving_sub
  | Call_mul_shift_right | Call_rounding_halving_add | Call_rounding_mul_shift_right
  | Call_rounding_shift_left | Call_rounding_shift_right
  | Call_saturating_add | Call_saturating_sub | Call_saturating_cast
  | Call_shift_left | Call_shift_right | Call_sorted_avg
  | Call_widen_right_add | Call_widen_right_mul | Call_widen_right_sub
  | Call_widening_add | Call_widening_mul | Call_widening_shift_left
  | Call_widening_shift_right | Call_widening_sub
  | Call_if_then_else | Call_return_second | Call_strict_float | Call_round
  | Call_div_round_to_zero | Call_mod_round_to_zero | Call_gpu_thread_barrier

datatype CallName = Intrinsic IntrinsicOp | Extern string

datatype float_const = Float_lowest | Float_highest | Float_of_int int

datatype Expr =
    IntImm Type int
  | UIntImm Type int
  | FloatImm Type float_const
  | StringImm string
  | Variable Type string
  | Cast Type Expr
  | Reinterpret Type Expr
  | Broadcast Expr nat
  | Ramp Expr Expr nat
  | Add Expr Expr
  | Sub Expr Expr
  | Mul Expr Expr
  | Div Expr Expr
  | Mod Expr Expr
  | Min Expr Expr
  | Max Expr Expr
  | EQ Expr Expr
  | NE Expr Expr
  | LT Expr Expr
  | LE Expr Expr
  | GT Expr Expr
  | GE Expr Expr
  | And Expr Expr
  | Or Expr Expr
  | Not Expr
  | Select Expr Expr Expr
  | Load Type string Expr
  | Call Type CallName "Expr list"
  | Let string Expr Expr
  | VectorReduce Type Expr

text \<open>\<open>type_of\<close> is \<open>Expr::type()\<close>: the type the node's \<open>make\<close> function stores.\<close>

fun type_of :: "Expr \<Rightarrow> Type" where
  "type_of (IntImm t v) = t"
| "type_of (UIntImm t v) = t"
| "type_of (FloatImm t v) = t"
| "type_of (StringImm s) = Handle_t"
| "type_of (Variable t n) = t"
| "type_of (Cast t e) = t"
| "type_of (Reinterpret t e) = t"
| "type_of (Broadcast e n) = with_lanes (type_of e) (lanes (type_of e) * n)"
| "type_of (Ramp b s n) = with_lanes (type_of b) (lanes (type_of b) * n)"
| "type_of (Add a b) = type_of a"
| "type_of (Sub a b) = type_of a"
| "type_of (Mul a b) = type_of a"
| "type_of (Div a b) = type_of a"
| "type_of (Mod a b) = type_of a"
| "type_of (Min a b) = type_of a"
| "type_of (Max a b) = type_of a"
| "type_of (EQ a b) = with_lanes Bool_t (lanes (type_of a))"
| "type_of (NE a b) = with_lanes Bool_t (lanes (type_of a))"
| "type_of (LT a b) = with_lanes Bool_t (lanes (type_of a))"
| "type_of (LE a b) = with_lanes Bool_t (lanes (type_of a))"
| "type_of (GT a b) = with_lanes Bool_t (lanes (type_of a))"
| "type_of (GE a b) = with_lanes Bool_t (lanes (type_of a))"
| "type_of (And a b) = with_lanes Bool_t (lanes (type_of a))"
| "type_of (Or a b) = with_lanes Bool_t (lanes (type_of a))"
| "type_of (Not a) = type_of a"
| "type_of (Select c t f) = type_of t"
| "type_of (Load t n i) = t"
| "type_of (Call t n args) = t"
| "type_of (Let n v b) = type_of b"
| "type_of (VectorReduce t e) = t"

text \<open>Statements, as far as the verified visitors inspect them.\<close>

datatype ForType = Serial | Parallel | Vectorized | Unrolled | GPUBlock | GPUThread | GPULane

datatype Stmt =
    For string Expr Expr ForType Stmt
  | Block Stmt Stmt
  | IfThenElse Expr Stmt "Stmt option"
  | LetStmt string Expr Stmt
  | Evaluate Expr
  | Store string Expr Expr


section \<open>The shader emitter's \<open>For\<close> loops (CodeGen_Vulkan_Dev.cpp)\<close>

subsection \<open>Workgroup size\<close>

text \<open>Modelled from the spec: \<open>ends_with\<close> of Util.h, which is missing (the recognizer of
  GPU variable names is string-suffix based).\<close>

definition ends_with :: "string \<Rightarrow> string \<Rightarrow> bool" where
  "ends_with str suffix =
     (length suffix \<le> length str \<and> drop (length str - length suffix) str = suffix)"

definition thread_loop_workgroup_index :: "string \<Rightarrow> int" where
  "thread_loop_workgroup_index name =
     (if ends_with name ''.__thread_id_x'' then 0
      else if ends_with name ''.__thread_id_y'' then 1
      else if ends_with name ''.__thread_id_z'' then 2
      else -1)"

definition reset_workgroup_size :: "32 word list" where
  "reset_workgroup_size = [0, 0, 0]"

text \<open>
  The first part of the GPU branch of \<open>visit(const For *)\<close>, up to and including the update
  of \<open>workgroup_size\<close>.  \<open>is_const_zero\<close> (IROperator.h) is a parameter.
\<close>

definition visit_For_workgroup_size ::
  "(Expr \<Rightarrow> bool) \<Rightarrow> string \<Rightarrow> Expr \<Rightarrow> Expr \<Rightarrow> ForType \<Rightarrow> 32 word list \<Rightarrow> error + 32 word list" where
  "visit_For_workgroup_size is_const_zero name mn extent for_type workgroup_size =
     (if \<not> (for_type = GPUBlock \<or> for_type = GPUThread) then
        Inl (InternalError ''kernel loops must be either gpu block or gpu thread'')
      else if \<not> is_const_zero mn then
        Inl (InternalError ''is_const_zero(op->min)'')
      else
        (let idx = thread_loop_workgroup_index name in
         if idx \<ge> 0 then
           (case extent of
              IntImm t v \<Rightarrow>
                (let new_wsize = (word_of_int v :: 32 word) in
                 if workgroup_size ! nat idx = 0 \<or> workgroup_size ! nat idx = new_wsize
                 then Inr (workgroup_size[nat idx := new_wsize])
                 else Inl (UserError ''Vulkan requires all kernels have the same workgroup size, but two different ones were encountered''))
            | _ \<Rightarrow> Inl (UserError ''Vulkan requires statically-known workgroup size.''))
         else Inr workgroup_size))"

text \<open>A 32-bit signed immediate, as the extent of a \<open>For\<close> loop is.\<close>

definition int32_range :: "int \<Rightarrow> bool" where
  "int32_range v = (- (2 ^ 31) \<le> v \<and> v < 2 ^ 31)"

subsection \<open>Serial loops\<close>

text \<open>The factory methods the serial branch of \<open>visit(const For *)\<close> uses.\<close>

definition binary_op :: "SpvOp \<Rightarrow> SpvId \<Rightarrow> SpvId \<Rightarrow> SpvId \<Rightarrow> SpvId \<Rightarrow> SpvInstruction" where
  "binary_op op ty res src_a_id src_b_id =
     add_operand src_b_id (add_operand src_a_id
       (set_result_id res (set_type_id ty (SpvInstruction_make op))))"

definition integer_add :: "SpvId \<Rightarrow> SpvId \<Rightarrow> SpvId \<Rightarrow> SpvId \<Rightarrow> SpvInstruction" where
  "integer_add ty res src_a_id src_b_id = binary_op SpvOpIAdd ty res src_a_id src_b_id"




definition conditional_branch :: "SpvId \<Rightarrow> SpvId \<Rightarrow> SpvId \<Rightarrow> 32 word list \<Rightarrow> SpvInstruction" where
  "conditional_branch condition_label_id true_label_id false_label_id weights =
     fold add_immediate weights
       (add_operand false_label_id (add_operand true_label_id (add_operand condition_label_id
          (SpvInstruction_make SpvOpBranchConditional))))"
















subsection \<open>Executing the emitted blocks\<close>


































section \<open>Expression builders (IROperator.h, Type.h)\<close>

text \<open>
  The operators with which FindIntrinsics.cpp and the emitter build expressions are declared
  in IROperator.h, which is not among the verified sources.  They are modelled as the
  constructors of the nodes they build: \<open>a + b\<close> is \<open>Add a b\<close>, and so on for the other
  arithmetic operators and the comparisons; the operands are taken as they are (the implicit
  conversions between operands of different types and the folding of constants are not
  modelled).  An integer literal operand becomes a constant of the other operand's type
  (\<open>lit\<close>), a literal shift amount an unsigned constant of the same width
  (\<open>shift_amount\<close>).  Bitwise operators and shifts are intrinsic calls.
\<close>

definition make_const :: "Type \<Rightarrow> int \<Rightarrow> Expr" where
  "make_const t v =
     (let s = (if is_int t then IntImm (element_of t) v
               else if is_uint t then UIntImm (element_of t) v
               else FloatImm (element_of t) (Float_of_int v))
      in if lanes t > 1 then Broadcast s (lanes t) else s)"

definition make_zero :: "Type \<Rightarrow> Expr" where
  "make_zero t = make_const t 0"

definition make_one :: "Type \<Rightarrow> Expr" where
  "make_one t = make_const t 1"

definition lit :: "Expr \<Rightarrow> int \<Rightarrow> Expr" where
  "lit e v = make_const (type_of e) v"

definition shift_amount :: "Expr \<Rightarrow> int \<Rightarrow> Expr" where
  "shift_amount e v = make_const (UInt_t (bits (type_of e)) (lanes (type_of e))) v"

text \<open>Modelled from the spec: \<open>Type::min()\<close> and \<open>Type::max()\<close> of Type.h, the bounds of the
  representable range of a type as expressions.\<close>

definition type_min :: "Type \<Rightarrow> Expr" where
  "type_min t =
     (let s = (if is_int t then IntImm (element_of t) (- (2 ^ (bits t - 1)))
               else if is_uint t then UIntImm (element_of t) 0
               else FloatImm (element_of t) Float_lowest)
      in if lanes t > 1 then Broadcast s (lanes t) else s)"

definition type_max :: "Type \<Rightarrow> Expr" where
  "type_max t =
     (let s = (if is_int t then IntImm (element_of t) (2 ^ (bits t - 1) - 1)
               else if is_uint t then UIntImm (element_of t) (2 ^ bits t - 1)
               else FloatImm (element_of t) Float_highest)
      in if lanes t > 1 then Broadcast s (lanes t) else s)"

definition cast :: "Type \<Rightarrow> Expr \<Rightarrow> Expr" where
  "cast t e = (if type_of e = t then e else Cast t e)"

definition select :: "Expr \<Rightarrow> Expr \<Rightarrow> Expr \<Rightarrow> Expr" where
  "select c t f = Select c t f"

definition clamp :: "Expr \<Rightarrow> Expr \<Rightarrow> Expr \<Rightarrow> Expr" where
  "clamp a min_val max_val = Max (Min a max_val) min_val"

definition intrin :: "Type \<Rightarrow> IntrinsicOp \<Rightarrow> Expr list \<Rightarrow> Expr" where
  "intrin t op args = Call t (Intrinsic op) args"

definition shift_left :: "Expr \<Rightarrow> Expr \<Rightarrow> Expr" where
  "shift_left x y = intrin (type_of x) Call_shift_left [x, y]"

definition shift_right :: "Expr \<Rightarrow> Expr \<Rightarrow> Expr" where
  "shift_right x y = intrin (type_of x) Call_shift_right [x, y]"

definition bitwise_and :: "Expr \<Rightarrow> Expr \<Rightarrow> Expr" where
  "bitwise_and x y = intrin (type_of x) Call_bitwise_and [x, y]"

definition bitwise_xor :: "Expr \<Rightarrow> Expr \<Rightarrow> Expr" where
  "bitwise_xor x y = intrin (type_of x) Call_bitwise_xor [x, y]"

definition bitwise_not :: "Expr \<Rightarrow> Expr" where
  "bitwise_not x = intrin (type_of x) Call_bitwise_not [x]"

text \<open>
  The constructors of the intrinsic calls.  The result types are those of the data model
  (\<open>x.type.widen()\<close> for the widening operations, the type of the first operand otherwise),
  except that \<open>widening_sub\<close> is signed: \<open>lower_widening_sub\<close> and the rules of
  \<open>FindIntrinsics::visit(const Call *)\<close> (``cast (reinterpret) is needed only for uints'')
  have it so.  A literal third operand of the multiply-shift intrinsics is an unsigned
  constant of the operands' width.
\<close>

definition widening_add :: "Expr \<Rightarrow> Expr \<Rightarrow> Expr" where
  "widening_add a b = intrin (widen_t (type_of a)) Call_widening_add [a, b]"

definition widening_mul :: "Expr \<Rightarrow> Expr \<Rightarrow> Expr" where
  "widening_mul a b = intrin (widen_t (type_of a)) Call_widening_mul [a, b]"

definition widening_sub :: "Expr \<Rightarrow> Expr \<Rightarrow> Expr" where
  "widening_sub a b =
     intrin (with_code (widen_t (type_of a)) halide_type_int) Call_widening_sub [a, b]"

definition saturating_cast :: "Type \<Rightarrow> Expr \<Rightarrow> Expr" where
  "saturating_cast t a = intrin t Call_saturating_cast [a]"

definition saturating_add :: "Expr \<Rightarrow> Expr \<Rightarrow> Expr" where
  "saturating_add a b = intrin (type_of a) Call_saturating_add [a, b]"

definition halving_add :: "Expr \<Rightarrow> Expr \<Rightarrow> Expr" where
  "halving_add a b = intrin (type_of a) Call_halving_add [a, b]"

definition rounding_halving_add :: "Expr \<Rightarrow> Expr \<Rightarrow> Expr" where
  "rounding_halving_add a b = intrin (type_of a) Call_rounding_halving_add [a, b]"

definition rounding_shift_right :: "Expr \<Rightarrow> Expr \<Rightarrow> Expr" where
  "rounding_shift_right a b = intrin (type_of a) Call_rounding_shift_right [a, b]"

definition rounding_shift_left :: "Expr \<Rightarrow> Expr \<Rightarrow> Expr" where
  "rounding_shift_left a b = intrin (type_of a) Call_rounding_shift_left [a, b]"

definition mul_shift_right :: "Expr \<Rightarrow> Expr \<Rightarrow> Expr \<Rightarrow> Expr" where
  "mul_shift_right a b q = intrin (type_of a) Call_mul_shift_right [a, b, q]"

definition rounding_mul_shift_right :: "Expr \<Rightarrow> Expr \<Rightarrow> Expr \<Rightarrow> Expr" where
  "rounding_mul_shift_right a b q = intrin (type_of a) Call_rounding_mul_shift_right [a, b, q]"

section \<open>The intrinsic lowerer (FindIntrinsics.cpp)\<close>

text \<open>
  The functions of other compilation units that the lowerer and the recognizer consult
  (Simplify.h, IROperator.h, Util.h) are collaborators: they are parameters of the model.
\<close>

record collaborators =
  simplify :: "Expr \<Rightarrow> Expr"
  can_prove :: "Expr \<Rightarrow> bool"
  is_positive_const :: "Expr \<Rightarrow> bool"
  is_const :: "Expr \<Rightarrow> bool"
  is_const_value :: "Expr \<Rightarrow> int \<Rightarrow> bool"
  lossless_cast :: "Type \<Rightarrow> Expr \<Rightarrow> Expr option"
  lossless_negate :: "Expr \<Rightarrow> Expr option"
  unique_name :: "char \<Rightarrow> string"

definition widen :: "Expr \<Rightarrow> Expr" where
  "widen a = Cast (widen_t (type_of a)) a"

definition narrow :: "Expr \<Rightarrow> Expr" where
  "narrow a = Cast (narrow_t (type_of a)) a"



definition saturating_narrow :: "Expr \<Rightarrow> Expr" where
  "saturating_narrow a = saturating_cast (narrow_t (type_of a)) a"

definition no_overflow_int :: "Type \<Rightarrow> bool" where
  "no_overflow_int t = (is_int t \<and> bits t \<ge> 32)"

definition no_overflow :: "Type \<Rightarrow> bool" where
  "no_overflow t = (is_float t \<or> no_overflow_int t)"

text \<open>\<open>is_safe_for_add(e, max_depth)\<close>; \<open>max_depth\<close> is a C++ \<open>int\<close>.\<close>

fun is_safe_for_add_depth :: "Expr \<Rightarrow> int \<Rightarrow> bool" where
  "is_safe_for_add_depth (Add a b) max_depth =
     (if max_depth \<le> 0 then False
      else is_safe_for_add_depth a (max_depth - 1) \<or> is_safe_for_add_depth b (max_depth - 1))"
| "is_safe_for_add_depth (Sub a b) max_depth =
     (if max_depth \<le> 0 then False
      else is_safe_for_add_depth a (max_depth - 1) \<or> is_safe_for_add_depth b (max_depth - 1))"
| "is_safe_for_add_depth (Cast t v) max_depth =
     (if max_depth \<le> 0 then False
      else if bits t > bits (type_of v) then True
      else if bits t = bits (type_of v) then is_safe_for_add_depth v (max_depth - 1)
      else False)"
| "is_safe_for_add_depth (Reinterpret t v) max_depth =
     (if max_depth \<le> 0 then False
      else if bits t = bits (type_of v) then is_safe_for_add_depth v (max_depth - 1)
      else False)"
| "is_safe_for_add_depth (Call t n args) max_depth =
     (if max_depth \<le> 0 then False
      else n \<in> {Intrinsic Call_widening_add, Intrinsic Call_widening_sub,
                 Intrinsic Call_widen_right_add, Intrinsic Call_widen_right_sub})"
| "is_safe_for_add_depth e max_depth = False"

definition is_safe_for_add :: "Expr \<Rightarrow> bool" where
  "is_safe_for_add e = is_safe_for_add_depth e (int (bits (type_of e)) div 2 - 1)"

definition lower_widen_right_add :: "Expr \<Rightarrow> Expr \<Rightarrow> Expr" where
  "lower_widen_right_add a b = Add a (widen b)"

definition lower_widen_right_mul :: "Expr \<Rightarrow> Expr \<Rightarrow> Expr" where
  "lower_widen_right_mul a b = Mul a (widen b)"

definition lower_widen_right_sub :: "Expr \<Rightarrow> Expr \<Rightarrow> Expr" where
  "lower_widen_right_sub a b = Sub a (widen b)"

definition lower_widening_add :: "Expr \<Rightarrow> Expr \<Rightarrow> Expr" where
  "lower_widening_add a b = Add (widen a) (widen b)"

definition lower_widening_mul :: "Expr \<Rightarrow> Expr \<Rightarrow> Expr" where
  "lower_widening_mul a b = Mul (widen a) (widen b)"

definition lower_widening_sub :: "Expr \<Rightarrow> Expr \<Rightarrow> Expr" where
  "lower_widening_sub a b =
     (let wide = widen_t (type_of a);
          wide = (if is_uint wide then with_code wide halide_type_int else wide)
      in Sub (Cast wide a) (Cast wide b))"

definition lower_widening_shift_left :: "Expr \<Rightarrow> Expr \<Rightarrow> Expr" where
  "lower_widening_shift_left a b = shift_left (widen a) b"

definition lower_widening_shift_right :: "Expr \<Rightarrow> Expr \<Rightarrow> Expr" where
  "lower_widening_shift_right a b = shift_right (widen a) b"

definition lower_rounding_shift_left :: "collaborators \<Rightarrow> Expr \<Rightarrow> Expr \<Rightarrow> Expr" where
  "lower_rounding_shift_left h a b =
     (let b_negative = select (LT b (lit b 0)) (make_one (type_of a)) (make_zero (type_of a))
      in simplify h (Add (shift_left a b)
                         (bitwise_and b_negative (shift_left a (Add b (lit b 1))))))"

definition lower_rounding_shift_right :: "collaborators \<Rightarrow> Expr \<Rightarrow> Expr \<Rightarrow> Expr" where
  "lower_rounding_shift_right h a b =
     (let b_positive = select (GT b (lit b 0)) (make_one (type_of a)) (make_zero (type_of a));
          general = simplify h (Add (shift_right a b)
                                    (bitwise_and b_positive (shift_right a (Sub b (lit b 1)))))
      in if is_positive_const h b then
           (if is_uint (type_of a) then
              (let shift = simplify h (Sub b (lit b 1));
                   one_shifted = shift_left (IntImm (Int_t 32 1) 1) shift;
                   round = simplify h (cast (type_of a) (Sub one_shifted (lit one_shifted 1)))
               in shift_right (rounding_halving_add a round) shift)
            else if is_safe_for_add a then
              (let round = simplify h (cast (type_of a)
                              (shift_left (IntImm (Int_t 32 1) 1) (Sub b (lit b 1))))
               in shift_right (Add a round) b)
            else general)
         else general)"

definition lower_saturating_add :: "collaborators \<Rightarrow> Expr \<Rightarrow> Expr \<Rightarrow> error + Expr" where
  "lower_saturating_add h a b =
     (if type_of a \<noteq> type_of b then Inl (InternalError ''a.type() == b.type()'')
      else Inr (Add (simplify h (clamp a (Sub (type_min (type_of a)) (Min b (lit b 0)))
                                         (Sub (type_max (type_of a)) (Max b (lit b 0))))) b))"

definition lower_saturating_sub :: "collaborators \<Rightarrow> Expr \<Rightarrow> Expr \<Rightarrow> error + Expr" where
  "lower_saturating_sub h a b =
     (if type_of a \<noteq> type_of b then Inl (InternalError ''a.type() == b.type()'')
      else Inr (Sub (simplify h (clamp a (Add (type_min (type_of a)) (Max b (lit b 0)))
                                         (Add (type_max (type_of a)) (Min b (lit b 0))))) b))"

definition lower_saturating_cast :: "collaborators \<Rightarrow> Type \<Rightarrow> Expr \<Rightarrow> Expr" where
  "lower_saturating_cast h t a =
     (if is_float t \<and> is_float (type_of a) then
        (if bits t < bits (type_of a) then cast t (clamp a (type_min t) (type_max t))
         else clamp (cast t a) (type_min t) (type_max t))
      else if type_of a \<noteq> t then
        (if is_float (type_of a) \<and> \<not> is_float t \<and> bits t \<ge> bits (type_of a) then
           (let e = Max a (type_min t)
            in select (GE e (cast (type_of e) (type_max t))) (type_max t) (cast t e))
         else
           (let min_bound = (if \<not> is_uint (type_of a)
                             then lossless_cast h (type_of a) (type_min t) else None);
                max_bound = lossless_cast h (type_of a) (type_max t);
                e = (case (min_bound, max_bound) of
                       (Some lo, Some hi) \<Rightarrow> clamp a lo hi
                     | (Some lo, None) \<Rightarrow> Max a lo
                     | (None, Some hi) \<Rightarrow> Min a hi
                     | (None, None) \<Rightarrow> a)
            in cast t e))
      else a)"

definition lower_halving_add :: "Expr \<Rightarrow> Expr \<Rightarrow> error + Expr" where
  "lower_halving_add a b =
     (if type_of a \<noteq> type_of b then Inl (InternalError ''a.type() == b.type()'')
      else Inr (Add (bitwise_and a b)
                    (shift_right (bitwise_xor a b) (shift_amount (bitwise_xor a b) 1))))"

definition lower_halving_sub :: "Expr \<Rightarrow> Expr \<Rightarrow> error + Expr" where
  "lower_halving_sub a b =
     (if type_of a \<noteq> type_of b then Inl (InternalError ''a.type() == b.type()'')
      else
        (let e = rounding_halving_add a (bitwise_not b)
         in if is_uint (type_of a)
            then Inr (Add e (make_const (type_of e) (2 ^ (bits (type_of a) - 1))))
            else Inr e))"

definition lower_rounding_halving_add :: "Expr \<Rightarrow> Expr \<Rightarrow> error + Expr" where
  "lower_rounding_halving_add a b =
     (if type_of a \<noteq> type_of b then Inl (InternalError ''a.type() == b.type()'')
      else Inr (Add (halving_add a b) (bitwise_and (bitwise_xor a b) (lit (bitwise_xor a b) 1))))"

definition lower_sorted_avg :: "Expr \<Rightarrow> Expr \<Rightarrow> Expr" where
  "lower_sorted_avg a b = Add a (shift_right (Sub b a) (shift_amount (Sub b a) 1))"

definition lower_absd :: "collaborators \<Rightarrow> Expr \<Rightarrow> Expr \<Rightarrow> Expr" where
  "lower_absd h a b =
     (let a_name = unique_name h CHR ''a'';
          b_name = unique_name h CHR ''b'';
          a_var = Variable (type_of a) a_name;
          b_var = Variable (type_of b) b_name
      in Let a_name a (Let b_name b (Select (LT a_var b_var) (Sub b_var a_var) (Sub a_var b_var))))"

definition lower_mul_shift_right :: "collaborators \<Rightarrow> Expr \<Rightarrow> Expr \<Rightarrow> Expr \<Rightarrow> error + Expr" where
  "lower_mul_shift_right h a b q =
     (if type_of a \<noteq> type_of b then Inl (InternalError ''a.type() == b.type()'')
      else
        (let full_q = (if is_int (type_of a) then int (bits (type_of a)) - 1
                       else int (bits (type_of a)));
             missing_q = Sub (lit q full_q) q;
             new_b = simplify h (shift_left b missing_q);
             new_a = simplify h (shift_left a missing_q);
             rest =
               (if can_prove h (GT q (lit q (int (bits (type_of a))))) then
                  shift_right (mul_shift_right a b (shift_amount a (int (bits (type_of a)))))
                              (simplify h (Sub q (lit q (int (bits (type_of a))))))
                else
                  (let result = shift_right (widening_mul a b) q
                   in if \<not> can_prove h (GE q (lit q (int (bits (type_of a)))))
                      then saturating_narrow result else narrow result))
         in if can_prove h (LT q (lit q full_q)) then
              (if bits (type_of missing_q) \<noteq> bits (type_of b)
               then Inl (InternalError ''missing_q.type().bits() == b.type().bits()'')
               else if is_const h new_b \<and> can_prove h (EQ (shift_right new_b missing_q) b)
               then Inr (mul_shift_right a new_b (shift_amount a full_q))
               else if is_const h new_a \<and> can_prove h (EQ (shift_right new_a missing_q) a)
               then Inr (mul_shift_right new_a b (shift_amount new_a full_q))
               else Inr rest)
            else Inr rest))"

definition emulate_signed_rounding_mul_shift_right_31 :: "Expr \<Rightarrow> Expr \<Rightarrow> error + Expr" where
  "emulate_signed_rounding_mul_shift_right_31 a b =
     (let int16 = Int_t 16 (lanes (type_of a));
          uint16 = UInt_t 16 (lanes (type_of a));
          a_hi = cast int16 (shift_right a (shift_amount a 16));
          b_hi = cast int16 (shift_right b (shift_amount b 16));
          a_lo = cast uint16 a;
          b_lo = cast uint16 b;
          ab_hi = widening_mul a_hi b_hi;
          ab_mid0 = widening_mul a_hi b_lo;
          ab_mid1 = widening_mul b_hi a_lo;
          ab_lo_shifted = mul_shift_right a_lo b_lo (shift_amount a_lo 16)
      in if element_of (type_of ab_hi) \<noteq> Int_t 32 1
         then Inl (InternalError ''ab_hi.type().element_of() == Int(32)'')
         else if element_of (type_of ab_mid0) \<noteq> Int_t 32 1
         then Inl (InternalError ''ab_mid0.type().element_of() == Int(32)'')
         else if element_of (type_of ab_mid1) \<noteq> Int_t 32 1
         then Inl (InternalError ''ab_mid1.type().element_of() == Int(32)'')
         else if element_of (type_of ab_lo_shifted) \<noteq> UInt_t 16 1
         then Inl (InternalError ''ab_lo_shifted.type().element_of() == UInt(16)'')
         else
           (let s = halving_add (Add ab_mid0 (lit ab_mid0 (2 ^ 14))) (Add ab_mid1 ab_lo_shifted);
                lo = shift_right s (shift_amount s 14)
            in if element_of (type_of lo) \<noteq> Int_t 32 1
               then Inl (InternalError ''lo.type().element_of() == Int(32)'')
               else Inr (saturating_add ab_hi (Add ab_hi lo))))"

definition lower_rounding_mul_shift_right :: "collaborators \<Rightarrow> Expr \<Rightarrow> Expr \<Rightarrow> Expr \<Rightarrow> error + Expr" where
  "lower_rounding_mul_shift_right h a b q =
     (if type_of a \<noteq> type_of b then Inl (InternalError ''a.type() == b.type()'')
      else if is_const_value h q 31 \<and> element_of (type_of a) = Int_t 32 1
      then emulate_signed_rounding_mul_shift_right_31 a b
      else
        (let full_q = (if is_int (type_of a) then int (bits (type_of a)) - 1
                       else int (bits (type_of a)));
             missing_q = Sub (lit q full_q) q;
             new_b = simplify h (shift_left b missing_q);
             new_a = simplify h (shift_left a missing_q);
             rest =
               (let result = rounding_shift_right (widening_mul a b) q
                in if \<not> can_prove h (GE q (lit q (int (bits (type_of a)))))
                   then saturating_narrow result else narrow result)
         in if can_prove h (LT q (lit q full_q)) then
              (if bits (type_of missing_q) \<noteq> bits (type_of b)
               then Inl (InternalError ''missing_q.type().bits() == b.type().bits()'')
               else if is_const h new_b \<and> can_prove h (EQ (shift_right new_b missing_q) b)
               then Inr (rounding_mul_shift_right a new_b (shift_amount a full_q))
               else if is_const h new_a \<and> can_prove h (EQ (shift_right new_a missing_q) a)
               then Inr (rounding_mul_shift_right new_a b (shift_amount new_a full_q))
               else Inr rest)
            else Inr rest))"

text \<open>
  The dispatchers.  The argument is the \<open>Call\<close> node, given by its type, name and arguments;
  \<open>Inl\<close> is a failed \<open>internal_assert\<close>, \<open>Inr None\<close> the undefined expression \<open>Expr()\<close>.
\<close>

definition args1 :: "Expr list \<Rightarrow> (Expr \<Rightarrow> error + Expr) \<Rightarrow> error + Expr option" where
  "args1 args f =
     (case args of
        [a] \<Rightarrow> (case f a of Inl e \<Rightarrow> Inl e | Inr r \<Rightarrow> Inr (Some r))
      | _ \<Rightarrow> Inl (InternalError ''op->args.size() == 1''))"

definition args2 :: "Expr list \<Rightarrow> (Expr \<Rightarrow> Expr \<Rightarrow> error + Expr) \<Rightarrow> error + Expr option" where
  "args2 args f =
     (case args of
        [a, b] \<Rightarrow> (case f a b of Inl e \<Rightarrow> Inl e | Inr r \<Rightarrow> Inr (Some r))
      | _ \<Rightarrow> Inl (InternalError ''op->args.size() == 2''))"

definition args3 :: "Expr list \<Rightarrow> (Expr \<Rightarrow> Expr \<Rightarrow> Expr \<Rightarrow> error + Expr) \<Rightarrow> error + Expr option" where
  "args3 args f =
     (case args of
        [a, b, c] \<Rightarrow> (case f a b c of Inl e \<Rightarrow> Inl e | Inr r \<Rightarrow> Inr (Some r))
      | _ \<Rightarrow> Inl (InternalError ''op->args.size() == 3''))"

definition lower_intrinsic :: "collaborators \<Rightarrow> Type \<Rightarrow> CallName \<Rightarrow> Expr list \<Rightarrow> error + Expr option" where
  "lower_intrinsic h t n args =
     (if n = Intrinsic Call_widen_right_add then args2 args (\<lambda>a b. Inr (lower_widen_right_add a b))
      else if n = Intrinsic Call_widen_right_mul then args2 args (\<lambda>a b. Inr (lower_widen_right_mul a b))
      else if n = Intrinsic Call_widen_right_sub then args2 args (\<lambda>a b. Inr (lower_widen_right_sub a b))
      else if n = Intrinsic Call_widening_add then args2 args (\<lambda>a b. Inr (lower_widening_add a b))
      else if n = Intrinsic Call_widening_mul then args2 args (\<lambda>a b. Inr (lower_widening_mul a b))
      else if n = Intrinsic Call_widening_sub then args2 args (\<lambda>a b. Inr (lower_widening_sub a b))
      else if n = Intrinsic Call_saturating_add then args2 args (lower_saturating_add h)
      else if n = Intrinsic Call_saturating_sub then args2 args (lower_saturating_sub h)
      else if n = Intrinsic Call_saturating_cast then args1 args (\<lambda>a. Inr (lower_saturating_cast h t a))
      else if n = Intrinsic Call_widening_shift_left then args2 args (\<lambda>a b. Inr (lower_widening_shift_left a b))
      else if n = Intrinsic Call_widening_shift_right then args2 args (\<lambda>a b. Inr (lower_widening_shift_right a b))
      else if n = Intrinsic Call_rounding_shift_right then args2 args (\<lambda>a b. Inr (lower_rounding_shift_right h a b))
      else if n = Intrinsic Call_rounding_shift_left then args2 args (\<lambda>a b. Inr (lower_rounding_shift_left h a b))
      else if n = Intrinsic Call_halving_add then args2 args lower_halving_add
      else if n = Intrinsic Call_halving_sub then args2 args lower_halving_sub
      else if n = Intrinsic Call_rounding_halving_add then args2 args lower_rounding_halving_add
      else if n = Intrinsic Call_rounding_mul_shift_right then args3 args (lower_rounding_mul_shift_right h)
      else if n = Intrinsic Call_mul_shift_right then args3 args (lower_mul_shift_right h)
      else if n = Intrinsic Call_sorted_avg then args2 args (\<lambda>a b. Inr (lower_sorted_avg a b))
      else if n = Intrinsic Call_absd then args2 args (\<lambda>a b. Inr (lower_absd h a b))
      else Inr None)"

text \<open>In \<open>lower_intrinsic_semantically\<close> the test of the result width comes before the
  assertion on the number of arguments for the saturating add and subtract, and after it
  for the other intrinsics.\<close>

definition lower_intrinsic_semantically ::
  "collaborators \<Rightarrow> Type \<Rightarrow> CallName \<Rightarrow> Expr list \<Rightarrow> error + Expr option" where
  "lower_intrinsic_semantically h t n args =
     (if n = Intrinsic Call_widen_right_add then args2 args (\<lambda>a b. Inr (Add a (widen b)))
      else if n = Intrinsic Call_widen_right_mul then args2 args (\<lambda>a b. Inr (Mul a (widen b)))
      else if n = Intrinsic Call_widen_right_sub then args2 args (\<lambda>a b. Inr (Sub a (widen b)))
      else if n = Intrinsic Call_widening_add then args2 args (\<lambda>a b. Inr (lower_widening_add a b))
      else if n = Intrinsic Call_widening_mul then args2 args (\<lambda>a b. Inr (lower_widening_mul a b))
      else if n = Intrinsic Call_widening_sub then args2 args (\<lambda>a b. Inr (lower_widening_sub a b))
      else if n = Intrinsic Call_saturating_add then
        (if bits t > 32 then lower_intrinsic h t n args
         else args2 args (\<lambda>a b. Inr (saturating_narrow (Add (widen a) (widen b)))))
      else if n = Intrinsic Call_saturating_sub then
        (if bits t > 32 then lower_intrinsic h t n args
         else args2 args (\<lambda>a b. Inr (saturating_narrow (widening_sub a b))))
      else if n = Intrinsic Call_saturating_cast then args1 args (\<lambda>a. Inr (lower_saturating_cast h t a))
      else if n = Intrinsic Call_widening_shift_left then args2 args (\<lambda>a b. Inr (lower_widening_shift_left a b))
      else if n = Intrinsic Call_widening_shift_right then args2 args (\<lambda>a b. Inr (lower_widening_shift_right a b))
      else if n = Intrinsic Call_rounding_shift_right then
        (case args of
           [x, y] \<Rightarrow>
             (if bits t > 32 then lower_intrinsic h t n args
              else
                (let zero = make_zero (type_of x);
                     one = make_one (type_of x);
                     round = select (LT y zero) (shift_left one (Add y one)) zero
                 in Inr (Some (saturating_narrow (shift_right (widening_add x round) y)))))
         | _ \<Rightarrow> Inl (InternalError ''op->args.size() == 2''))
      else if n = Intrinsic Call_rounding_shift_left then
        (case args of
           [x, y] \<Rightarrow>
             (if bits t > 32 then lower_intrinsic h t n args
              else
                (let zero = make_zero (type_of x);
                     one = make_one (type_of x);
                     round = select (LT y zero) (shift_right one (Add y one)) zero
                 in Inr (Some (saturating_narrow (shift_left (widening_add x round) y)))))
         | _ \<Rightarrow> Inl (InternalError ''op->args.size() == 2''))
      else if n = Intrinsic Call_halving_add then
        (case args of
           [x, y] \<Rightarrow>
             (if bits t > 32 then lower_intrinsic h t n args
              else Inr (Some (narrow (Div (Add (widen x) (widen y))
                                         (lit (Add (widen x) (widen y)) 2)))))
         | _ \<Rightarrow> Inl (InternalError ''op->args.size() == 2''))
      else if n = Intrinsic Call_halving_sub then
        (case args of
           [x, y] \<Rightarrow>
             (if bits t > 32 then lower_intrinsic h t n args
              else Inr (Some (narrow (Div (Sub (widen x) (widen y))
                                         (lit (Sub (widen x) (widen y)) 2)))))
         | _ \<Rightarrow> Inl (InternalError ''op->args.size() == 2''))
      else if n = Intrinsic Call_rounding_halving_add then
        (case args of
           [x, y] \<Rightarrow>
             (if bits t > 32 then lower_intrinsic h t n args
              else
                (let s = Add (Add (widen x) (widen y)) (lit (Add (widen x) (widen y)) 1)
                 in Inr (Some (narrow (Div s (lit s 2))))))
         | _ \<Rightarrow> Inl (InternalError ''op->args.size() == 2''))
      else if n = Intrinsic Call_rounding_mul_shift_right then
        (case args of
           [x, y, z] \<Rightarrow>
             (if bits t > 16 then lower_intrinsic h t n args
              else Inr (Some (saturating_narrow (rounding_shift_right (widening_mul x y) z))))
         | _ \<Rightarrow> Inl (InternalError ''op->args.size() == 3''))
      else if n = Intrinsic Call_mul_shift_right then
        (case args of
           [x, y, z] \<Rightarrow>
             (if bits t > 32 then lower_intrinsic h t n args
              else Inr (Some (saturating_narrow (shift_right (widening_mul x y) z))))
         | _ \<Rightarrow> Inl (InternalError ''op->args.size() == 3''))
      else if n = Intrinsic Call_sorted_avg then args2 args (\<lambda>a b. Inr (lower_sorted_avg a b))
      else if n = Intrinsic Call_absd then args2 args (\<lambda>a b. Inr (lower_absd h a b))
      else Inr None)"

section \<open>Intrinsic calls in the shader emitter (CodeGen_Vulkan_Dev.cpp)\<close>

text \<open>
  \<open>SPIRV_Emitter::visit(const Call *)\<close>, projected on the expression that the visitor
  builds and then visits in place of an intrinsic call (\<open>e.accept(this)\<close>).  \<open>Inr None\<close>
  stands for the branches that emit instructions for the call directly (barrier, \<open>abs\<close>,
  \<open>round\<close>, bitwise operations, shifts, \<open>if_then_else\<close>, division and modulo rounding
  to zero, built-ins and external calls) or visit an argument (\<open>return_second\<close>,
  \<open>strict_float\<close>).
\<close>

definition higher_order_intrinsics :: "IntrinsicOp list" where
  "higher_order_intrinsics =
     [Call_widen_right_add, Call_widen_right_mul, Call_widen_right_sub,
      Call_widening_add, Call_widening_mul, Call_widening_sub,
      Call_widening_shift_left, Call_widening_shift_right,
      Call_rounding_shift_left, Call_rounding_shift_right,
      Call_saturating_cast, Call_saturating_add, Call_saturating_sub, Call_saturating_cast,
      Call_halving_add, Call_halving_sub, Call_rounding_halving_add,
      Call_mul_shift_right, Call_rounding_mul_shift_right]"

definition visit_Call_lowered ::
  "collaborators \<Rightarrow> Type \<Rightarrow> CallName \<Rightarrow> Expr list \<Rightarrow> error + Expr option" where
  "visit_Call_lowered h t n args =
     (if n = Intrinsic Call_gpu_thread_barrier then Inr None
      else if n = Intrinsic Call_abs then Inr None
      else if n = Intrinsic Call_round then Inr None
      else if n = Intrinsic Call_absd then
        args2 args (\<lambda>a b. Inr (cast t (select (LT a b) (Sub b a) (Sub a b))))
      else if n \<in> Intrinsic ` {Call_return_second, Call_bitwise_and, Call_bitwise_xor,
                 Call_bitwise_or, Call_bitwise_not, Call_if_then_else, Call_div_round_to_zero,
                 Call_mod_round_to_zero, Call_shift_right, Call_shift_left, Call_strict_float}
      then Inr None
      else if n = Intrinsic Call_sorted_avg then
        args2 args (\<lambda>a b. Inr (Add a (Div (Sub b a) (lit (Sub b a) 2))))
      else if n \<in> Intrinsic ` set higher_order_intrinsics then lower_intrinsic h t n args
      else Inr None)"

text \<open>
  Collaborators for the examples: a simplifier that returns its argument, a prover that
  proves nothing, constant tests that recognise immediates and broadcasts of immediates, a
  lossless cast that removes a value-preserving cast from the wanted type, and names without
  a counter.  \<open>can_represent\<close> is that of Type.h for integer types.
\<close>

definition can_represent :: "Type \<Rightarrow> Type \<Rightarrow> bool" where
  "can_represent t other =
     (lanes t = lanes other \<and>
      (if is_int t then (is_int other \<and> bits other \<le> bits t) \<or>
                        (is_uint other \<and> bits other < bits t)
       else if is_uint t then is_uint other \<and> bits other \<le> bits t
       else False))"

fun as_const :: "Expr \<Rightarrow> int option" where
  "as_const (IntImm t v) = Some v"
| "as_const (UIntImm t v) = Some v"
| "as_const (Broadcast (IntImm t v) n) = Some v"
| "as_const (Broadcast (UIntImm t v) n) = Some v"
| "as_const e = None"

definition example_collaborators :: collaborators where
  "example_collaborators =
     \<lparr>simplify = (\<lambda>e. e),
      can_prove = (\<lambda>e. False),
      is_positive_const = (\<lambda>e. case as_const e of Some v \<Rightarrow> 0 < v | None \<Rightarrow> False),
      is_const = (\<lambda>e. as_const e \<noteq> None),
      is_const_value = (\<lambda>e v. as_const e = Some v),
      lossless_cast = (\<lambda>t e. if type_of e = t then Some e
                              else (case e of
                                      Cast t' v \<Rightarrow> if type_of v = t \<and> can_represent t' t
                                                   then Some v else None
                                    | _ \<Rightarrow> None)),
      lossless_negate = (\<lambda>e. None),
      unique_name = (\<lambda>c. [c])\<rparr>"

section \<open>The value of an expression\<close>

text \<open>
  Modelled from the spec: the value of a scalar integer expression (the \<open>eval\<close> of the
  lowerer's invariant) for given values of its variables.  Arithmetic on \<open>bits\<close>-bit
  integers wraps around (two's complement for signed types); a cast between integer types
  keeps the low bits; a shift right of a signed value is arithmetic; a negative shift amount
  reverses the direction of a shift.  \<open>rounding_shift_right(x, y)\<close> with \<open>y > 0\<close> is the shift
  of \<open>x + 2^(y-1)\<close>, computed without overflow (data model and 4.2 of the specification).
  Anything else has no value in this model.
\<close>

definition wrap :: "Type \<Rightarrow> int \<Rightarrow> int" where
  "wrap t v = (if is_int t then signed_take_bit (bits t - 1) v else take_bit (bits t) v)"

definition shift_value :: "Type \<Rightarrow> int \<Rightarrow> int \<Rightarrow> int" where
  "shift_value t x y =
     (if 0 \<le> y then wrap t (x * 2 ^ nat y) else x div 2 ^ nat (- y))"

definition eval_call :: "Type \<Rightarrow> CallName \<Rightarrow> int option list \<Rightarrow> int option" where
  "eval_call t n vs =
     (case vs of
        [Some x, Some y] \<Rightarrow>
          (if n = Intrinsic Call_shift_left then Some (shift_value t x y)
           else if n = Intrinsic Call_shift_right then Some (shift_value t x (- y))
           else if n = Intrinsic Call_rounding_shift_right \<and> 0 < y
           then Some (wrap t ((x + 2 ^ nat (y - 1)) div 2 ^ nat y))
           else None)
      | _ \<Rightarrow> None)"

definition arith :: "Type \<Rightarrow> (int \<Rightarrow> int \<Rightarrow> int) \<Rightarrow> int option \<Rightarrow> int option \<Rightarrow> int option" where
  "arith t f a b =
     (case (a, b) of (Some x, Some y) \<Rightarrow> Some (wrap t (f x y)) | _ \<Rightarrow> None)"

fun eval_expr :: "(string \<Rightarrow> int) \<Rightarrow> Expr \<Rightarrow> int option" where
  "eval_expr vars (IntImm t v) = Some v"
| "eval_expr vars (UIntImm t v) = Some v"
| "eval_expr vars (Variable t n) = Some (wrap t (vars n))"
| "eval_expr vars (Cast t e) = map_option (wrap t) (eval_expr vars e)"
| "eval_expr vars (Add a b) = arith (type_of a) (+) (eval_expr vars a) (eval_expr vars b)"
| "eval_expr vars (Sub a b) = arith (type_of a) (-) (eval_expr vars a) (eval_expr vars b)"
| "eval_expr vars (Mul a b) = arith (type_of a) (*) (eval_expr vars a) (eval_expr vars b)"
| "eval_expr vars (Call t n args) = eval_call t n (map (eval_expr vars) args)"
| "eval_expr vars e = None"

text \<open>The failing input of claim C1: \<open>rounding_shift_right(int16(x) + z, 1)\<close> with \<open>x\<close> of
  type \<open>int8\<close> and \<open>z\<close> of type \<open>int16\<close>, at \<open>x = 0\<close> and \<open>z = 32767\<close>.\<close>

definition example_sum :: Expr where
  "example_sum = Add (Cast (Int_t 16 1) (Variable (Int_t 8 1) ''x'')) (Variable (Int_t 16 1) ''z'')"

definition example_values :: "string \<Rightarrow> int" where
  "example_values n = (if n = ''z'' then 32767 else 0)"

section \<open>Narrowing in the recognizer (FindIntrinsics.cpp)\<close>

text \<open>
  The parts of \<open>FindIntrinsics::visit\<close> for \<open>Add\<close>, \<open>Sub\<close> and \<open>Mul\<close> that look for a lossless
  narrowing of the operands, for a node of type \<open>t\<close> whose operands \<open>a\<close> and \<open>b\<close> have been
  mutated.  The result is the expression the visitor builds (and returns, or passes to
  \<open>mutate\<close>), \<open>None\<close> when it goes on to its rewrite rules, \<open>Inl\<close> when an \<open>internal_assert\<close>
  fails.  \<open>widen_right_add\<close>, \<open>widen_right_sub\<close>, \<open>widen_right_mul\<close> and \<open>reinterpret\<close> are
  the constructors of IROperator.h.
\<close>

definition widen_right_add :: "Expr \<Rightarrow> Expr \<Rightarrow> Expr" where
  "widen_right_add a b = intrin (type_of a) Call_widen_right_add [a, b]"

definition widen_right_sub :: "Expr \<Rightarrow> Expr \<Rightarrow> Expr" where
  "widen_right_sub a b = intrin (type_of a) Call_widen_right_sub [a, b]"


definition reinterpret :: "Type \<Rightarrow> Expr \<Rightarrow> Expr" where
  "reinterpret t e = Reinterpret t e"

definition is_VectorReduce :: "Expr \<Rightarrow> bool" where
  "is_VectorReduce e = (case e of VectorReduce t v \<Rightarrow> True | _ \<Rightarrow> False)"

text \<open>The loops over the candidate type codes.  The first loop of \<open>visit(const Add *)\<close>:\<close>

fun visit_Add_widening ::
  "collaborators \<Rightarrow> Type \<Rightarrow> Expr \<Rightarrow> Expr \<Rightarrow> halide_type_code_t list \<Rightarrow> Expr option" where
  "visit_Add_widening h t a b [] = None"
| "visit_Add_widening h t a b (c # codes) =
     (let narrow = with_code (narrow_t t) c;
          narrow_a = lossless_cast h narrow a;
          narrow_b = lossless_cast h narrow b
      in case (narrow_a, narrow_b) of
           (Some na, Some nb) \<Rightarrow>
             (let result = widening_add na nb
              in Some (if type_of result \<noteq> t then Cast t result else result))
         | _ \<Rightarrow> visit_Add_widening h t a b codes)"

text \<open>The first loop of \<open>visit(const Sub *)\<close>:\<close>

fun visit_Sub_widening ::
  "collaborators \<Rightarrow> Type \<Rightarrow> Expr \<Rightarrow> Expr \<Rightarrow> halide_type_code_t list \<Rightarrow> Expr option" where
  "visit_Sub_widening h t a b [] = None"
| "visit_Sub_widening h t a b (c # codes) =
     (let narrow = with_code (narrow_t t) c;
          narrow_a = lossless_cast h narrow a;
          narrow_b = lossless_cast h narrow b
      in case (narrow_a, narrow_b) of
           (Some na, Some nb) \<Rightarrow>
             (let result = (case lossless_negate h nb of
                              Some negative_narrow_b \<Rightarrow> widening_add na negative_narrow_b
                            | None \<Rightarrow> widening_sub na nb)
              in Some (if type_of result \<noteq> t then Cast t result else result))
         | _ \<Rightarrow> visit_Sub_widening h t a b codes)"

text \<open>The construction of a widen-right intrinsic from the wide operand \<open>wide\<close> and the
  narrowed operand \<open>n\<close>, with the ``safe reinterpret'' and the assertions around it.\<close>

definition widen_right_result ::
  "(Expr \<Rightarrow> Expr \<Rightarrow> Expr) \<Rightarrow> Type \<Rightarrow> halide_type_code_t \<Rightarrow> Expr \<Rightarrow> Expr \<Rightarrow> error + Expr" where
  "widen_right_result build t c wide n =
     (if Type.code (type_of wide) \<noteq> Type.code (type_of n) then
        (let t' = with_code (type_of wide) c;
             result = build (reinterpret t' wide) n
         in if type_of result = t then Inl (InternalError ''result.type() != op->type'')
            else if type_of (reinterpret t result) \<noteq> t
            then Inl (InternalError ''result.type() == op->type'')
            else Inr (reinterpret t result))
      else
        (let result = build wide n
         in if type_of result \<noteq> t then Inl (InternalError ''result.type() == op->type'')
            else Inr result))"

text \<open>The second loop of \<open>visit(const Add *)\<close> (\<open>build\<close> is \<open>widen_right_add\<close>, and
  \<open>skip_reduce\<close> holds: a \<open>VectorReduce\<close> operand is not narrowed) and that of
  \<open>visit(const Mul *)\<close> (\<open>build\<close> is \<open>widen_right_mul\<close>, and every operand is tried):\<close>

fun visit_widen_right ::
  "(Expr \<Rightarrow> Expr \<Rightarrow> Expr) \<Rightarrow> string \<Rightarrow> bool \<Rightarrow> collaborators \<Rightarrow> Type \<Rightarrow> Expr \<Rightarrow> Expr \<Rightarrow>
     halide_type_code_t list \<Rightarrow> error + Expr option" where
  "visit_widen_right build msg skip_reduce h t a b [] = Inr None"
| "visit_widen_right build msg skip_reduce h t a b (c # codes) =
     (let narrow = with_code (narrow_t t) c;
          narrow_a = (if skip_reduce \<and> is_VectorReduce a then None else lossless_cast h narrow a);
          narrow_b = (if skip_reduce \<and> is_VectorReduce b then None else lossless_cast h narrow b)
      in case (narrow_a, narrow_b) of
           (Some na, Some nb) \<Rightarrow> Inl (InternalError msg)
         | (Some na, None) \<Rightarrow>
             (case widen_right_result build t c b na of Inl e \<Rightarrow> Inl e | Inr r \<Rightarrow> Inr (Some r))
         | (None, Some nb) \<Rightarrow>
             (case widen_right_result build t c a nb of Inl e \<Rightarrow> Inl e | Inr r \<Rightarrow> Inr (Some r))
         | (None, None) \<Rightarrow> visit_widen_right build msg skip_reduce h t a b codes)"

text \<open>The last loop of \<open>visit(const Sub *)\<close>, which narrows the second operand only:\<close>

fun visit_Sub_widen_right ::
  "collaborators \<Rightarrow> Type \<Rightarrow> Expr \<Rightarrow> Expr \<Rightarrow> halide_type_code_t list \<Rightarrow> error + Expr option" where
  "visit_Sub_widen_right h t a b [] = Inr None"
| "visit_Sub_widen_right h t a b (c # codes) =
     (let narrow = with_code (narrow_t t) c;
          narrow_b = lossless_cast h narrow b
      in case narrow_b of
           Some nb \<Rightarrow>
             (case widen_right_result widen_right_sub t c a nb of
                Inl e \<Rightarrow> Inl e | Inr r \<Rightarrow> Inr (Some r))
         | None \<Rightarrow> visit_Sub_widen_right h t a b codes)"

definition visit_Add_narrowing :: "collaborators \<Rightarrow> Type \<Rightarrow> Expr \<Rightarrow> Expr \<Rightarrow> error + Expr option" where
  "visit_Add_narrowing h t a b =
     (case visit_Add_widening h t a b [Type.code t, halide_type_uint] of
        Some result \<Rightarrow> Inr (Some result)
      | None \<Rightarrow>
          if is_int_or_uint t \<and> bits t > 8
          then visit_widen_right widen_right_add
                 ''find_intrinsics failed to find a widening_add'' True h t a b
                 [Type.code t, halide_type_uint, halide_type_int]
          else Inr None)"

definition visit_Sub_narrowing :: "collaborators \<Rightarrow> Type \<Rightarrow> Expr \<Rightarrow> Expr \<Rightarrow> error + Expr option" where
  "visit_Sub_narrowing h t a b =
     (case visit_Sub_widening h t a b [Type.code t, halide_type_uint] of
        Some result \<Rightarrow> Inr (Some result)
      | None \<Rightarrow>
          (case lossless_negate h b of
             Some negative_b \<Rightarrow> Inr (Some (Add a negative_b))
           | None \<Rightarrow>
               if is_int_or_uint t \<and> bits t > 8
               then visit_Sub_widen_right h t a b
                      [Type.code t, halide_type_uint, halide_type_int]
               else Inr None))"



text \<open>\<open>narrows_under\<close>: all of the operands narrow losslessly to the half-width type with
  the code \<open>c\<close>; \<open>one_narrows\<close>: one of them does.\<close>





section \<open>Properties of the SPIR-V builder\<close>

subsection \<open>Id allocation\<close>


lemma allocs_Nil [simp]: "allocs [] m = m" by (simp add: allocs_def)
lemma allocs_Cons: "allocs (k # ks) m = allocs ks (AList.update (word_of_nat (length m + 1)) k m)"
  by (simp add: allocs_def)
lemma allocs_append: "allocs (ks @ ks') m = allocs ks' (allocs ks m)"
  by (simp add: allocs_def)

lemma make_id_kind_map: "kind_map (snd (make_id k b)) = allocs [k] (kind_map b)"
  by (simp add: make_id_def allocs_def Let_def)

lemma word_of_nat_fresh:
  assumes "ids_consecutive m" "length m \<le> n" "n + 1 \<le> 2 ^ 32"
  shows "(word_of_nat (n + 1) :: SpvId) \<notin> fst ` set m"
proof
  assume "(word_of_nat (n + 1) :: SpvId) \<in> fst ` set m"
  then have "(word_of_nat (n + 1) :: SpvId) \<in> set (map fst m)" by simp
  then have "(word_of_nat (n + 1) :: SpvId) \<in> set (map (\<lambda>i. word_of_nat (i + 1)) [0..<length m])"
    using assms(1) by (simp only: ids_consecutive_def)
  then obtain j where j: "j < length m" "(word_of_nat (n + 1) :: SpvId) = word_of_nat (j + 1)"
    by auto
  have "unat (word_of_nat (n + 1) :: SpvId) = (n + 1) mod 2 ^ 32"
    by (simp only: unat_of_nat) simp
  moreover have "j + 1 < 2 ^ 32" using j assms by simp
  then have "unat (word_of_nat (j + 1) :: SpvId) = j + 1"
    by (simp only: unat_of_nat) simp
  ultimately have "(n + 1) mod 2 ^ 32 = j + 1" using j(2) by simp
  moreover have "n + 1 = 2 ^ 32 \<or> n + 1 < 2 ^ 32" using assms(3) by arith
  ultimately show False using j(1) assms(2) by auto
qed

lemma update_fresh: "k \<notin> fst ` set m \<Longrightarrow> AList.update k v m = m @ [(k, v)]"
  by (induction m) auto

lemma consecutive_step:
  assumes "ids_consecutive m" "length m < 2 ^ 32"
  shows "AList.update (word_of_nat (length m + 1) :: SpvId) k m = m @ [(word_of_nat (length m + 1), k)]"
    and "ids_consecutive (AList.update (word_of_nat (length m + 1) :: SpvId) k m)"
proof -
  have "length m + 1 \<le> 2 ^ 32" using assms(2) by simp
  then have f: "(word_of_nat (length m + 1) :: SpvId) \<notin> fst ` set m"
    using word_of_nat_fresh[OF assms(1) le_refl] by blast
  show u: "AList.update (word_of_nat (length m + 1) :: SpvId) k m = m @ [(word_of_nat (length m + 1), k)]"
    by (rule update_fresh[OF f])
  show "ids_consecutive (AList.update (word_of_nat (length m + 1) :: SpvId) k m)"
    using assms(1) unfolding u ids_consecutive_def by simp
qed

lemma length_update_le: "length m \<le> length (AList.update k v m)"
  by (induction m) auto

lemma length_allocs_le: "length m \<le> length (allocs ks m)"
proof (induction ks arbitrary: m)
  case Nil then show ?case by simp
next
  case (Cons k ks)
  have "length m \<le> length (AList.update (word_of_nat (length m + 1) :: SpvId) k m)"
    by (rule length_update_le)
  also have "\<dots> \<le> length (allocs ks (AList.update (word_of_nat (length m + 1)) k m))"
    by (rule Cons.IH)
  finally show ?case by (simp add: allocs_Cons)
qed

lemma allocs_consecutive:
  assumes "ids_consecutive m" "length (allocs ks m) < 2 ^ 32"
  shows "ids_consecutive (allocs ks m) \<and> length (allocs ks m) = length m + length ks"
  using assms
proof (induction ks arbitrary: m)
  case Nil then show ?case by simp
next
  case (Cons k ks)
  let ?m' = "AList.update (word_of_nat (length m + 1) :: SpvId) k m"
  have "length m \<le> length (allocs (k # ks) m)" by (rule length_allocs_le)
  then have b: "length m < 2 ^ 32" using Cons.prems(2) by simp
  have c: "ids_consecutive ?m'" and u: "?m' = m @ [(word_of_nat (length m + 1), k)]"
    using consecutive_step[OF Cons.prems(1) b] by auto
  have "ids_consecutive (allocs ks ?m') \<and> length (allocs ks ?m') = length ?m' + length ks"
    using Cons.IH[OF c] Cons.prems(2) by (simp add: allocs_Cons)
  then show ?case using u by (simp add: allocs_Cons)
qed


lemma kind_ext_refl: "kind_map b' = kind_map b \<Longrightarrow> kind_ext b b'"
  unfolding kind_ext_def by (rule exI[of _ "[]"]) simp

lemma kind_ext_trans: "kind_ext a b \<Longrightarrow> kind_ext b c \<Longrightarrow> kind_ext a c"
  unfolding kind_ext_def by (metis allocs_append)

lemma kind_ext_make_id: "make_id k b = (i, b') \<Longrightarrow> kind_ext b b'"
  unfolding kind_ext_def using make_id_kind_map[of k b] by (metis snd_conv)

lemma kind_ext_cong: "kind_ext a b \<Longrightarrow> kind_map c = kind_map b \<Longrightarrow> kind_ext a c"
  unfolding kind_ext_def by simp

lemma make_id_frame:
  "make_id k b = (i, b') \<Longrightarrow>
     base_type_map b' = base_type_map b \<and> pointer_type_map b' = pointer_type_map b \<and>
     type_map b' = type_map b \<and> module b' = module b"
  by (auto simp: make_id_def Let_def)


lemma add_type_ext:
  "add_type t a b = Inr (tid, b') \<Longrightarrow>
     kind_ext b b' \<and> base_type_map b' = base_type_map b \<and> pointer_type_map b' = pointer_type_map b"
proof (induction t a b arbitrary: tid b' rule: add_type.induct)
  case (1 t array_size b)
  note prem = "1.prems"[unfolded add_type.simps[of t array_size b]]
  show ?case
  proof (cases "map_of (type_map b) (make_type_key t array_size)")
    case (Some found)
    with prem show ?thesis by (simp add: kind_ext_refl)
  next
    case None
    show ?thesis
    proof (cases "array_size > 1")
      case True
      obtain i1 b1 where m1: "make_id SpvIntConstantId b = (i1, b1)" by force
      from prem None True m1 obtain i2 b2 where a2: "add_type (UInt_t 32 1) 1 b1 = Inr (i2, b2)"
        by (auto split: sum.splits)
      let ?b2' = "b2\<lparr>module := module_add_type
                                     (SpvFactory_constant i1 i2
                                        (take (bytes (UInt_t 32 1)) (le_bytes32 array_size)))
                                     (module b2),
                                   constant_map := AList.update
                                     (make_constant_key (UInt_t 32 1) (le_bytes32 array_size))
                                     i1 (constant_map b2)\<rparr>"
      obtain i3 b3 where m3: "make_id SpvArrayTypeId ?b2' = (i3, b3)" by force
      from prem None True m1 a2 m3 obtain i4 b4 where a4: "add_type t 1 b3 = Inr (i4, b4)"
        by (auto split: sum.splits)
      from prem None True m1 a2 m3 a4 have b': "kind_map b' = kind_map b4"
        "base_type_map b' = base_type_map b4" "pointer_type_map b' = pointer_type_map b4"
        by auto
      have ih2: "kind_ext b1 b2 \<and> base_type_map b2 = base_type_map b1 \<and> pointer_type_map b2 = pointer_type_map b1"
        using "1.IH"(1)[OF None True m1[symmetric] a2] .
      have ih4: "kind_ext b3 b4 \<and> base_type_map b4 = base_type_map b3 \<and> pointer_type_map b4 = pointer_type_map b3"
        using "1.IH"(2)[OF None True m1[symmetric] _ _ m3[symmetric] a4] a2 by simp
      have e1: "kind_ext b b1" using kind_ext_make_id[OF m1] .
      have e3: "kind_ext ?b2' b3" using kind_ext_make_id[OF m3] .
      have "kind_ext b1 ?b2'" using ih2 by (auto intro: kind_ext_cong)
      with e1 e3 ih4 have "kind_ext b b4" by (blast intro: kind_ext_trans)
      then have "kind_ext b b'" using b' by (auto intro: kind_ext_cong)
      moreover have "base_type_map b' = base_type_map b" "pointer_type_map b' = pointer_type_map b"
        using b' ih4 ih2 make_id_frame[OF m1] make_id_frame[OF m3] by auto
      ultimately show ?thesis by simp
    next
      case False
      show ?thesis
      proof (cases "is_vector t")
        case True
        obtain i1 b1 where m1: "make_id SpvVectorTypeId b = (i1, b1)" by force
        from prem None False True m1 obtain i2 b2 where a2: "add_type (with_lanes t 1) 1 b1 = Inr (i2, b2)"
          by (auto split: sum.splits)
        from prem None False True m1 a2 have b': "kind_map b' = kind_map b2"
          "base_type_map b' = base_type_map b2" "pointer_type_map b' = pointer_type_map b2"
          by auto
        have ih2: "kind_ext b1 b2 \<and> base_type_map b2 = base_type_map b1 \<and> pointer_type_map b2 = pointer_type_map b1"
          using "1.IH"(3)[OF None False True m1[symmetric] a2] .
        have "kind_ext b b2" using kind_ext_make_id[OF m1] ih2 by (blast intro: kind_ext_trans)
        then have "kind_ext b b'" using b' by (auto intro: kind_ext_cong)
        then show ?thesis using b' ih2 make_id_frame[OF m1] by auto
      next
        case nv: False
        obtain k where k: "k = (if is_handle t then SpvVoidTypeId else if is_bool t then SpvBoolTypeId
             else if is_float t then SpvFloatTypeId else SpvIntTypeId)" by simp
        obtain i1 b1 where m1: "make_id k b = (i1, b1)" by force
        from prem None False nv m1 k have b': "kind_map b' = kind_map b1"
          "base_type_map b' = base_type_map b1" "pointer_type_map b' = pointer_type_map b1"
          by (auto simp: Let_def split: if_splits)
        have "kind_ext b b'" using kind_ext_make_id[OF m1] b' by (auto intro: kind_ext_cong)
        then show ?thesis using b' make_id_frame[OF m1] by auto
      qed
    qed
  qed
qed




lemma keys_update: "fst ` set (AList.update k v m) = insert k (fst ` set m)"
  by (induction m) auto


lemma keys_allocs_mono: "fst ` set m \<subseteq> fst ` set (allocs ks m)"
proof (induction ks arbitrary: m)
  case Nil then show ?case by simp
next
  case (Cons k ks)
  have "fst ` set m \<subseteq> fst ` set (AList.update (word_of_nat (length m + 1) :: SpvId) k m)"
    by (auto simp: keys_update)
  also have "\<dots> \<subseteq> fst ` set (allocs ks (AList.update (word_of_nat (length m + 1)) k m))"
    by (rule Cons.IH)
  finally show ?case by (simp add: allocs_Cons)
qed


lemma kind_ext_keys: "kind_ext b b' \<Longrightarrow> fst ` set (kind_map b) \<subseteq> fst ` set (kind_map b')"
  unfolding kind_ext_def using keys_allocs_mono by metis


lemma kind_ext_length: "kind_ext b b' \<Longrightarrow> length (kind_map b) \<le> length (kind_map b')"
  unfolding kind_ext_def using length_allocs_le by metis


lemma kind_ext_consecutive:
  "kind_ext b b' \<Longrightarrow> ids_consecutive (kind_map b) \<Longrightarrow> length (kind_map b') < 2 ^ 32 \<Longrightarrow>
     ids_consecutive (kind_map b')"
  unfolding kind_ext_def using allocs_consecutive by metis


lemma make_id_fresh:
  assumes "make_id k b = (i, b')" "ids_consecutive (kind_map b0)"
    "length (kind_map b0) \<le> length (kind_map b)" "length (kind_map b) < 2 ^ 32"
  shows "i \<notin> fst ` set (kind_map b0)" and "i \<in> fst ` set (kind_map b')"
proof -
  have i: "i = word_of_nat (length (kind_map b) + 1)"
    and k: "kind_map b' = AList.update i k (kind_map b)"
    using assms(1) by (auto simp: make_id_def Let_def)
  have "length (kind_map b) + 1 \<le> 2 ^ 32" using assms(4) by simp
  then show "i \<notin> fst ` set (kind_map b0)"
    unfolding i using word_of_nat_fresh[OF assms(2) assms(3)] by blast
  show "i \<in> fst ` set (kind_map b')" unfolding k by (simp add: keys_update)
qed


lemma add_type_registers:
  assumes a: "add_type t a b = Inr (tid, b')"
  shows "map_of (type_map b') (make_type_key t a) = Some tid"
proof (cases "map_of (type_map b) (make_type_key t a)")
  case (Some found)
  with a show ?thesis by (simp add: add_type.simps[of t a b])
next
  case n: None
  show ?thesis
  proof (cases "a > 1")
    case True
    obtain i1 b1 where m1: "make_id SpvIntConstantId b = (i1, b1)" by force
    from a n True m1 obtain i2 b2 where a2: "add_type (UInt_t 32 1) 1 b1 = Inr (i2, b2)"
      by (auto simp: add_type.simps[of t a b] split: sum.splits)
    let ?b2' = "b2\<lparr>module := module_add_type
                                     (SpvFactory_constant i1 i2
                                        (take (bytes (UInt_t 32 1)) (le_bytes32 a)))
                                     (module b2),
                                   constant_map := AList.update
                                     (make_constant_key (UInt_t 32 1) (le_bytes32 a))
                                     i1 (constant_map b2)\<rparr>"
    obtain i3 b3 where m3: "make_id SpvArrayTypeId ?b2' = (i3, b3)" by force
    from a n True m1 a2 m3 obtain i4 b4 where a4: "add_type t 1 b3 = Inr (i4, b4)"
      by (auto simp: add_type.simps[of t a b] split: sum.splits)
    from a n True m1 a2 m3 a4 show ?thesis
      by (auto simp: add_type.simps[of t a b] update_conv')
  next
    case False
    show ?thesis
    proof (cases "is_vector t")
      case True
      obtain i1 b1 where m1: "make_id SpvVectorTypeId b = (i1, b1)" by force
      from a n False True m1 obtain i2 b2 where a2: "add_type (with_lanes t 1) 1 b1 = Inr (i2, b2)"
        by (auto simp: add_type.simps[of t a b] split: sum.splits)
      from a n False True m1 a2 show ?thesis
        by (auto simp: add_type.simps[of t a b] update_conv')
    next
      case nv: False
      obtain k where k: "k = (if is_handle t then SpvVoidTypeId else if is_bool t then SpvBoolTypeId
             else if is_float t then SpvFloatTypeId else SpvIntTypeId)" by simp
      obtain i1 b1 where m1: "make_id k b = (i1, b1)" by force
      from a n False nv m1 k show ?thesis
        by (auto simp: add_type.simps[of t a b] Let_def update_conv' split: if_splits)
    qed
  qed
qed


lemma add_type_fresh:
  assumes a: "add_type t a b = Inr (tid, b')"
    and n: "map_of (type_map b) (make_type_key t a) = None"
    and c: "ids_consecutive (kind_map b)"
    and l: "length (kind_map b') < 2 ^ 32"
  shows "tid \<notin> fst ` set (kind_map b) \<and> tid \<in> fst ` set (kind_map b')"
proof -
  have "\<exists>k bx by. kind_ext b bx \<and> make_id k bx = (tid, by) \<and> kind_ext by b'"
  proof (cases "a > 1")
    case True
    obtain i1 b1 where m1: "make_id SpvIntConstantId b = (i1, b1)" by force
    from a n True m1 obtain i2 b2 where a2: "add_type (UInt_t 32 1) 1 b1 = Inr (i2, b2)"
      by (auto simp: add_type.simps[of t a b] split: sum.splits)
    let ?b2' = "b2\<lparr>module := module_add_type
                                     (SpvFactory_constant i1 i2
                                        (take (bytes (UInt_t 32 1)) (le_bytes32 a)))
                                     (module b2),
                                   constant_map := AList.update
                                     (make_constant_key (UInt_t 32 1) (le_bytes32 a))
                                     i1 (constant_map b2)\<rparr>"
    obtain i3 b3 where m3: "make_id SpvArrayTypeId ?b2' = (i3, b3)" by force
    from a n True m1 a2 m3 obtain i4 b4 where a4: "add_type t 1 b3 = Inr (i4, b4)"
      by (auto simp: add_type.simps[of t a b] split: sum.splits)
    from a n True m1 a2 m3 a4 have b': "kind_map b' = kind_map b4" "tid = i3"
      by (auto simp: add_type.simps[of t a b])
    have "kind_ext b b1" using kind_ext_make_id[OF m1] .
    moreover have "kind_ext b1 ?b2'" using add_type_ext[OF a2] by (auto intro: kind_ext_cong)
    ultimately have "kind_ext b ?b2'" by (blast intro: kind_ext_trans)
    moreover have "kind_ext b3 b'" using add_type_ext[OF a4] b' by (auto intro: kind_ext_cong)
    ultimately show ?thesis using m3 b' by blast
  next
    case False
    show ?thesis
    proof (cases "is_vector t")
      case True
      obtain i1 b1 where m1: "make_id SpvVectorTypeId b = (i1, b1)" by force
      from a n False True m1 obtain i2 b2 where a2: "add_type (with_lanes t 1) 1 b1 = Inr (i2, b2)"
        by (auto simp: add_type.simps[of t a b] split: sum.splits)
      from a n False True m1 a2 have b': "kind_map b' = kind_map b2" "tid = i1"
        by (auto simp: add_type.simps[of t a b])
      have "kind_ext b1 b'" using add_type_ext[OF a2] b' by (auto intro: kind_ext_cong)
      then show ?thesis using m1 b' kind_ext_refl[of b b] by blast
    next
      case nv: False
      obtain k where k: "k = (if is_handle t then SpvVoidTypeId else if is_bool t then SpvBoolTypeId
             else if is_float t then SpvFloatTypeId else SpvIntTypeId)" by simp
      obtain i1 b1 where m1: "make_id k b = (i1, b1)" by force
      from a n False nv m1 k have b': "kind_map b' = kind_map b1" "tid = i1"
        by (auto simp: add_type.simps[of t a b] Let_def split: if_splits)
      have "kind_ext b1 b'" using b' by (auto intro: kind_ext_refl)
      then show ?thesis using m1 b' kind_ext_refl[of b b] by blast
    qed
  qed
  then obtain k bx "by" where x: "kind_ext b bx" "make_id k bx = (tid, by)" "kind_ext by b'"
    by blast
  have "length (kind_map by) \<le> length (kind_map b')" using kind_ext_length[OF x(3)] .
  moreover have "length (kind_map bx) < length (kind_map by) \<or> length (kind_map bx) \<ge> length (kind_map by)"
    by arith
  moreover have "length (kind_map bx) \<le> length (kind_map by)"
    using kind_ext_length[OF kind_ext_make_id[OF x(2)]] .
  ultimately have lx: "length (kind_map bx) \<le> length (kind_map b')" by simp
  have lt: "length (kind_map bx) < 2 ^ 32" using lx l by simp
  have "tid \<notin> fst ` set (kind_map b)"
    using make_id_fresh(1)[OF x(2) c kind_ext_length[OF x(1)] lt] .
  moreover have "tid \<in> fst ` set (kind_map by)"
    using make_id_fresh(2)[OF x(2) c kind_ext_length[OF x(1)] lt] .
  then have "tid \<in> fst ` set (kind_map b')" using kind_ext_keys[OF x(3)] by blast
  ultimately show ?thesis by simp
qed



lemma wf_reset: "wf_builder reset"
  by (simp add: wf_builder_def reset_def make_id_def ids_consecutive_def Let_def)


lemma add_type_wf:
  assumes "wf_builder b" "add_type t a b = Inr (tid, b')" "length (kind_map b') < 2 ^ 32"
  shows "wf_builder b'"
proof -
  from add_type_ext[OF assms(2)] have e: "kind_ext b b'"
    and bt: "base_type_map b' = base_type_map b"
    and pt: "pointer_type_map b' = pointer_type_map b" by auto
  have c: "ids_consecutive (kind_map b')"
    using kind_ext_consecutive[OF e _ assms(3)] assms(1) by (simp add: wf_builder_def)
  have "fst ` set (base_type_map b) \<subseteq> fst ` set (kind_map b)"
    using assms(1) by (simp add: wf_builder_def)
  then have "fst ` set (base_type_map b') \<subseteq> fst ` set (kind_map b')"
    unfolding bt using kind_ext_keys[OF e] by (rule subset_trans)
  then show ?thesis using c assms(1) bt pt by (simp add: wf_builder_def)
qed

lemma add_pointer_type_id_wf:
  assumes w: "wf_builder b" and a: "add_pointer_type_id base sc b = (p, b')"
    and l: "length (kind_map b') < 2 ^ 32"
  shows "wf_builder b'"
    and "map_of (pointer_type_map b') (base, sc) = Some p"
    and "map_of (base_type_map b') p = Some base"
    and "kind_ext b b'" and "type_map b' = type_map b"
proof -
  have "wf_builder b' \<and> map_of (pointer_type_map b') (base, sc) = Some p \<and>
        map_of (base_type_map b') p = Some base \<and> kind_ext b b' \<and> type_map b' = type_map b"
  proof (cases "map_of (pointer_type_map b) (base, sc)")
    case (Some found)
    with a have "p = found" "b' = b" by (auto simp: add_pointer_type_id_def)
    with w Some show ?thesis by (auto simp: wf_builder_def kind_ext_refl)
  next
    case None
    obtain i1 b1 where m1: "make_id SpvPointerTypeId b = (i1, b1)" by force
    from a None m1 have p: "p = i1" and k: "kind_map b' = kind_map b1"
      and pm: "pointer_type_map b' = AList.update (base, sc) p (pointer_type_map b)"
      and bm: "base_type_map b' = AList.update p base (base_type_map b)"
      and tm: "type_map b' = type_map b"
      using make_id_frame[OF m1] by (auto simp: add_pointer_type_id_def)
    have e: "kind_ext b b'" using kind_ext_make_id[OF m1] k by (auto intro: kind_ext_cong)
    have lb: "length (kind_map b) < 2 ^ 32"
      using kind_ext_length[OF e] l by simp
    have c: "ids_consecutive (kind_map b)" using w by (simp add: wf_builder_def)
    have fresh: "p \<notin> fst ` set (kind_map b)" and inn: "p \<in> fst ` set (kind_map b')"
      using make_id_fresh[OF m1 c le_refl lb] p k by auto
    have pf: "p \<notin> fst ` set (base_type_map b)" using fresh w by (auto simp: wf_builder_def)
    have c': "ids_consecutive (kind_map b')" using kind_ext_consecutive[OF e c l] .
    have "fst ` set (base_type_map b) \<subseteq> fst ` set (kind_map b')"
      using w kind_ext_keys[OF e] unfolding wf_builder_def by blast
    then have s': "fst ` set (base_type_map b') \<subseteq> fst ` set (kind_map b')"
      using inn unfolding bm keys_update by blast
    have "\<And>base' sc' p'. map_of (pointer_type_map b') (base', sc') = Some p' \<Longrightarrow>
                   map_of (base_type_map b') p' = Some base'"
    proof -
      fix base' sc' p'
      assume h: "map_of (pointer_type_map b') (base', sc') = Some p'"
      show "map_of (base_type_map b') p' = Some base'"
      proof (cases "(base', sc') = (base, sc)")
        case True
        with h have "p' = p" unfolding pm by (simp add: update_conv')
        then show ?thesis using True unfolding bm by (simp add: update_conv')
      next
        case False
        with h have o: "map_of (pointer_type_map b) (base', sc') = Some p'"
          unfolding pm by (auto simp: update_conv' split: if_splits)
        then have ob: "map_of (base_type_map b) p' = Some base'" using w by (simp add: wf_builder_def)
        then have "p' \<in> fst ` set (base_type_map b)" by (metis map_of_eq_None_iff option.distinct(1))
        then have "p' \<noteq> p" using pf by auto
        then show ?thesis using ob unfolding bm by (simp add: update_conv')
      qed
    qed
    then have i': "\<forall>base sc p. map_of (pointer_type_map b') (base, sc) = Some p \<longrightarrow>
                   map_of (base_type_map b') p = Some base" by blast
    have "map_of (pointer_type_map b') (base, sc) = Some p" unfolding pm by (simp add: update_conv')
    moreover have "map_of (base_type_map b') p = Some base" unfolding bm by (simp add: update_conv')
    ultimately show ?thesis using c' s' i' e tm by (simp add: wf_builder_def)
  qed
  then show "wf_builder b'"
    and "map_of (pointer_type_map b') (base, sc) = Some p"
    and "map_of (base_type_map b') p = Some base"
    and "kind_ext b b'" and "type_map b' = type_map b" by auto
qed





lemma declare_type_cases:
  assumes "declare_type t n b = Inr (tid, b')"
  shows "(lookup_type b t n = Some tid \<and> b' = b) \<or>
         (lookup_type b t n = None \<and> add_type t n b = Inr (tid, b'))"
  using assms by (auto simp: declare_type_def split: option.splits)

lemma declare_type_wf:
  assumes "wf_builder b" "declare_type t n b = Inr (tid, b')" "length (kind_map b') < 2 ^ 32"
  shows "wf_builder b'" and "kind_ext b b'"
  using declare_type_cases[OF assms(2)] assms add_type_wf add_type_ext kind_ext_refl
  by auto

lemma apply_op_wf:
  assumes "wf_builder b" "apply_op invalid x b = Inr b'" "length (kind_map b') < 2 ^ 32"
  shows "wf_builder b' \<and> kind_ext b b'"
proof (cases x)
  case (OpReserveId k)
  obtain i where m: "make_id k b = (i, b')"
    using assms(2) OpReserveId by (cases "make_id k b") (simp add: reserve_id_def)
  have e: "kind_ext b b'" using kind_ext_make_id[OF m] .
  have "ids_consecutive (kind_map b')"
    using kind_ext_consecutive[OF e _ assms(3)] assms(1) by (simp add: wf_builder_def)
  moreover have "fst ` set (base_type_map b) \<subseteq> fst ` set (kind_map b')"
    using assms(1) kind_ext_keys[OF e] unfolding wf_builder_def by blast
  ultimately show ?thesis using e assms(1) make_id_frame[OF m] by (simp add: wf_builder_def)
next
  case (OpDeclareType t n)
  then obtain tid where "declare_type t n b = Inr (tid, b')"
    using assms(2) by (cases "declare_type t n b") auto
  then show ?thesis using declare_type_wf[OF assms(1) _ assms(3)] by blast
next
  case (OpAddPointerType t sc)
  then obtain p where a: "add_pointer_type t sc b = Inr (p, b')"
    using assms(2) by (cases "add_pointer_type t sc b") auto
  then obtain tid b1 where d: "declare_type t 1 b = Inr (tid, b1)"
    and ap: "add_pointer_type_id tid sc b1 = (p, b')"
    by (auto simp: add_pointer_type_def split: sum.splits)
  have e2: "kind_ext b1 b'"
  proof (cases "map_of (pointer_type_map b1) (tid, sc)")
    case None
    obtain i1 bx where m1: "make_id SpvPointerTypeId b1 = (i1, bx)" by force
    with ap None have "kind_map b' = kind_map bx" by (auto simp: add_pointer_type_id_def)
    then show ?thesis using kind_ext_make_id[OF m1] by (auto intro: kind_ext_cong)
  next
    case (Some f)
    with ap show ?thesis by (auto simp: add_pointer_type_id_def kind_ext_refl)
  qed
  have l1: "length (kind_map b1) < 2 ^ 32" using kind_ext_length[OF e2] assms(3) by simp
  have w1: "wf_builder b1" and e1: "kind_ext b b1" using declare_type_wf[OF assms(1) d l1] by auto
  show ?thesis using add_pointer_type_id_wf(1)[OF w1 ap assms(3)] e1 e2 by (blast intro: kind_ext_trans)
next
  case (OpDeclarePointerType t sc)
  then obtain p where a: "declare_pointer_type invalid t sc b = Inr (p, b')"
    using assms(2) by (cases "declare_pointer_type invalid t sc b") auto
  then have "b' = b \<or> add_pointer_type_id invalid sc b = (p, b')"
    by (auto simp: declare_pointer_type_def split: sum.splits option.splits)
  then show ?thesis
    using assms(1) add_pointer_type_id_wf(1,4)[OF assms(1) _ assms(3)] kind_ext_refl by auto
next
  case (OpDeclarePointerTypeId i sc)
  obtain p where a: "declare_pointer_type_id i sc b = (p, b')"
    using assms(2) OpDeclarePointerTypeId by (cases "declare_pointer_type_id i sc b") simp
  then have "b' = b \<or> add_pointer_type_id i sc b = (p, b')"
    by (auto simp: declare_pointer_type_id_def split: option.splits)
  then show ?thesis
    using assms(1) add_pointer_type_id_wf(1,4)[OF assms(1) _ assms(3)] kind_ext_refl by auto
qed

lemma add_pointer_type_id_ext: "add_pointer_type_id base sc b = (p, b') \<Longrightarrow> kind_ext b b'"
proof (cases "map_of (pointer_type_map b) (base, sc)")
  case None
  assume ap: "add_pointer_type_id base sc b = (p, b')"
  obtain i1 bx where m1: "make_id SpvPointerTypeId b = (i1, bx)" by force
  with ap None have "kind_map b' = kind_map bx" by (auto simp: add_pointer_type_id_def)
  then show ?thesis using kind_ext_make_id[OF m1] by (auto intro: kind_ext_cong)
next
  case (Some f)
  assume ap: "add_pointer_type_id base sc b = (p, b')"
  with Some show ?thesis by (auto simp: add_pointer_type_id_def kind_ext_refl)
qed

lemma apply_op_ext:
  assumes "apply_op invalid x b = Inr b'"
  shows "kind_ext b b'"
proof (cases x)
  case (OpReserveId k)
  obtain i where m: "make_id k b = (i, b')"
    using assms OpReserveId by (cases "make_id k b") (simp add: reserve_id_def)
  show ?thesis using kind_ext_make_id[OF m] .
next
  case (OpDeclareType t n)
  then obtain tid where "declare_type t n b = Inr (tid, b')"
    using assms by (cases "declare_type t n b") auto
  then show ?thesis using declare_type_cases add_type_ext kind_ext_refl by blast
next
  case (OpAddPointerType t sc)
  then obtain p where a: "add_pointer_type t sc b = Inr (p, b')"
    using assms by (cases "add_pointer_type t sc b") auto
  then obtain tid b1 where d: "declare_type t 1 b = Inr (tid, b1)"
    and ap: "add_pointer_type_id tid sc b1 = (p, b')"
    by (auto simp: add_pointer_type_def split: sum.splits)
  have "kind_ext b b1" using declare_type_cases[OF d] add_type_ext kind_ext_refl by blast
  then show ?thesis using add_pointer_type_id_ext[OF ap] by (rule kind_ext_trans)
next
  case (OpDeclarePointerType t sc)
  then obtain p where a: "declare_pointer_type invalid t sc b = Inr (p, b')"
    using assms by (cases "declare_pointer_type invalid t sc b") auto
  then have "b' = b \<or> add_pointer_type_id invalid sc b = (p, b')"
    by (auto simp: declare_pointer_type_def split: sum.splits option.splits)
  then show ?thesis using add_pointer_type_id_ext kind_ext_refl by auto
next
  case (OpDeclarePointerTypeId i sc)
  obtain p where a: "declare_pointer_type_id i sc b = (p, b')"
    using assms OpDeclarePointerTypeId by (cases "declare_pointer_type_id i sc b") simp
  then have "b' = b \<or> add_pointer_type_id i sc b = (p, b')"
    by (auto simp: declare_pointer_type_id_def split: option.splits)
  then show ?thesis using add_pointer_type_id_ext kind_ext_refl by auto
qed

lemma run_ops_ext: "run_ops invalid xs b = Inr b' \<Longrightarrow> kind_ext b b'"
proof (induction xs arbitrary: b)
  case Nil
  then show ?case by (simp add: kind_ext_refl)
next
  case (Cons x xs)
  then obtain b1 where a: "apply_op invalid x b = Inr b1" and r: "run_ops invalid xs b1 = Inr b'"
    by (auto split: sum.splits)
  show ?case using apply_op_ext[OF a] Cons.IH[OF r] by (rule kind_ext_trans)
qed

lemma run_ops_wf:
  "run_ops invalid xs b = Inr b' \<Longrightarrow> wf_builder b \<Longrightarrow> length (kind_map b') < 2 ^ 32 \<Longrightarrow>
     wf_builder b'"
proof (induction xs arbitrary: b)
  case Nil
  then show ?case by simp
next
  case (Cons x xs)
  then obtain b1 where a: "apply_op invalid x b = Inr b1" and r: "run_ops invalid xs b1 = Inr b'"
    by (auto split: sum.splits)
  have "length (kind_map b1) < 2 ^ 32"
    using kind_ext_length[OF run_ops_ext[OF r]] Cons.prems(3) by simp
  then have "wf_builder b1" using apply_op_wf[OF Cons.prems(2) a] by simp
  then show ?case using Cons.IH[OF r] Cons.prems(3) by simp
qed

lemma reset_kind_map: "kind_map reset = [(1, SpvModuleId)]"
  by (simp add: reset_def make_id_def Let_def)

lemma consecutive_as_upt:
  "ids_consecutive m \<Longrightarrow> map fst m = map word_of_nat [1..<Suc (length m)]"
proof -
  assume "ids_consecutive m"
  then have "map fst m = map (\<lambda>i. word_of_nat (i + 1)) [0..<length m]"
    by (simp only: ids_consecutive_def)
  also have "\<dots> = map word_of_nat (map Suc [0..<length m])" by simp
  also have "map Suc [0..<length m] = [1..<Suc (length m)]"
    by (simp only: map_Suc_upt One_nat_def)
  finally show ?thesis .
qed

text \<open>
  Claim C8.  In every builder session the ids are allocated consecutively starting at 1 (the
  first one, by \<open>reset\<close>, for the module itself), and after \<open>finalize\<close> the module's
  \<open>binding_count\<close> is the highest id allocated so far plus 1, which is the id the next
  allocation would return.  The id space is that of \<open>SpvId\<close>: the session has allocated
  fewer than \<open>2^32\<close> ids.
\<close>

theorem ids_consecutive_binding_count:
  assumes "session invalid ops = Inr b" and "length (kind_map b) < 2 ^ 32"
  shows "kind_map b \<noteq> [] \<and>
         map fst (kind_map b) = map word_of_nat [1..<Suc (length (kind_map b))] \<and>
         (\<forall>i \<in> set (map fst (kind_map b)). i \<le> last (map fst (kind_map b))) \<and>
         binding_count (module (finalize b)) = last (map fst (kind_map b)) + 1 \<and>
         binding_count (module (finalize b)) = fst (make_id k (finalize b))"
proof -
  have r: "run_ops invalid ops reset = Inr b" using assms(1) by (simp add: session_def)
  have w: "wf_builder b" using run_ops_wf[OF r wf_reset assms(2)] .
  then have c: "ids_consecutive (kind_map b)" by (simp add: wf_builder_def)
  have "length (kind_map reset) \<le> length (kind_map b)"
    using kind_ext_length[OF run_ops_ext[OF r]] .
  then have ne: "kind_map b \<noteq> []" by (auto simp: reset_kind_map)
  let ?n = "length (kind_map b)"
  have u: "map fst (kind_map b) = map word_of_nat [1..<Suc ?n]"
    using consecutive_as_upt[OF c] .
  have n1: "1 \<le> ?n" using ne by (cases "kind_map b") auto
  have l: "last (map fst (kind_map b)) = (word_of_nat ?n :: SpvId)"
  proof -
    have "[1..<Suc ?n] = [1..<?n] @ [?n]" using n1 by simp
    then show ?thesis unfolding u by simp
  qed
  have le: "\<forall>i \<in> set (map fst (kind_map b)). i \<le> last (map fst (kind_map b))"
  proof
    fix i assume "i \<in> set (map fst (kind_map b))"
    then obtain j where j: "1 \<le> j" "j \<le> ?n" "i = word_of_nat j" unfolding u by auto
    have "unat (word_of_nat j :: SpvId) = j" using j assms(2) by (simp only: unat_of_nat) simp
    moreover have "unat (word_of_nat ?n :: SpvId) = ?n" using assms(2) by (simp only: unat_of_nat) simp
    ultimately show "i \<le> last (map fst (kind_map b))"
      unfolding l j(3) using j(2) by (simp add: word_le_nat_alt)
  qed
  have k: "kind_map (finalize b) = kind_map b" by (simp add: finalize_def Let_def)
  have bc: "binding_count (module (finalize b)) = word_of_nat (?n + 1)"
    by (simp add: finalize_def Let_def set_binding_count_def require_extension_def)
  have "binding_count (module (finalize b)) = last (map fst (kind_map b)) + 1"
    unfolding bc l by simp
  moreover have "binding_count (module (finalize b)) = fst (make_id k (finalize b))"
    unfolding bc by (simp add: make_id_def Let_def k)
  ultimately show ?thesis using ne u le by simp
qed

theorem ids_consecutive_binding_count_witness:
  "case session 0xFFFFFFFF [OpDeclareType (Int_t 32 1) 1, OpReserveId SpvResultId] of
     Inl e \<Rightarrow> False
   | Inr b \<Rightarrow> map fst (kind_map b) = [1, 2, 3] \<and> binding_count (module (finalize b)) = 4"
proof -
  obtain b where b: "session 0xFFFFFFFF [OpDeclareType (Int_t 32 1) 1, OpReserveId SpvResultId] = Inr b"
    and lb: "length (kind_map b) = 3"
    by (simp add: session_def reset_def make_id_def reserve_id_def declare_type_def lookup_type_def
        add_type.simps Let_def Int_t_def is_vector_def is_handle_def is_bool_def is_float_def
        is_int_or_uint_def is_int_def is_uint_def)
  have l: "length (kind_map b) < 2 ^ 32" using lb by simp
  show ?thesis
    using ids_consecutive_binding_count[OF b l, of SpvResultId] b lb
    by (simp add: eval_nat_numeral)
qed

subsection \<open>Adding blocks to a function\<close>

lemma is_terminated_nonempty:
  "instructions blk \<noteq> [] \<Longrightarrow>
     is_terminated blk = Some (is_terminator (op_code (last (instructions blk))))"
  by (cases "op_code (last (instructions blk))") (simp_all add: is_terminated_def is_terminator_def)

lemma add_block_nonempty_tail:
  assumes "blocks f \<noteq> []" and "instructions (tail_block f) \<noteq> []"
  shows "add_block f blk =
           Some (f\<lparr>blocks :=
                  (if is_terminator (op_code (last (instructions (tail_block f)))) then blocks f
                   else butlast (blocks f) @
                        [add_instruction (branch (block_id blk)) (tail_block f)]) @ [blk]\<rparr>)"
  using assms by (simp add: add_block_def branch_from_tail_def is_terminated_nonempty)

lemma add_block_first: "blocks f = [] \<Longrightarrow> add_block f blk = Some (f\<lparr>blocks := [blk]\<rparr>)"
  by (simp add: add_block_def branch_from_tail_def)

text \<open>
  Claim C7.  Adding a block to a function whose tail block does not end in a terminator must
  append a branch from the old tail to the new block.  A tail block without any instruction
  does not end in a terminator, yet \<open>is_terminated\<close> reads the last element of its empty
  instruction vector: on the function that \<open>SpvBuilder::add_function\<close> has just created
  (one block, no instruction) \<open>add_block\<close> and \<open>create_block\<close> have no defined result.
  For a tail block with at least one instruction the claimed behaviour is
  \<open>add_block_nonempty_tail\<close> above.
\<close>

theorem add_block_empty_tail_undefined:
  "is_terminated (SpvBlock_make 5) = None \<and>
   add_block \<lparr>function_id = 2, function_type_id = 3, return_type_id = 4, control_mask = 0,
              parameters = [], blocks = [SpvBlock_make 5]\<rparr> (SpvBlock_make 6) = None \<and>
   create_block \<lparr>function_id = 2, function_type_id = 3, return_type_id = 4, control_mask = 0,
              parameters = [], blocks = [SpvBlock_make 5]\<rparr> 6 = None"
  by (simp add: add_block_def create_block_def branch_from_tail_def is_terminated_def
      tail_block_def SpvBlock_make_def)

subsection \<open>Pointer types\<close>

lemma declare_type_registers:
  "declare_type t n b = Inr (tid, b') \<Longrightarrow> lookup_type b' t n = Some tid"
  using declare_type_cases add_type_registers by (fastforce simp: lookup_type_def)

text \<open>
  Claim C6, as amended.  In a reachable builder state in which the type \<open>T\<close> has not been
  declared, \<open>declare_pointer_type\<close> on \<open>T\<close> stops with an internal error, whereas
  \<open>add_pointer_type\<close> on \<open>T\<close> first declares \<open>T\<close> under a newly allocated id and then
  adds the pointer type under the key (id of \<open>T\<close>, storage class): the pointer type's
  recorded base type is the id of \<open>T\<close>, and adding or declaring the same pair again, by type
  or by id, returns the same pointer type id and leaves the builder unchanged.
\<close>

theorem add_pointer_type_declares_base:
  assumes w: "wf_builder b"
    and u: "lookup_type b T 1 = None"
    and a: "add_pointer_type T S b = Inr (p, b')"
    and l: "length (kind_map b') < 2 ^ 32"
  shows "declare_pointer_type invalid T S b =
           Inl (InternalError ''SPIRV: Attempted to lookup pointer type for undeclared base type!'') \<and>
         (\<exists>tid. lookup_type b' T 1 = Some tid \<and>
                tid \<notin> fst ` set (kind_map b) \<and> tid \<in> fst ` set (kind_map b') \<and>
                lookup_pointer_type_id b' tid S = Some p \<and>
                lookup_base_type b' p = Some tid \<and>
                add_pointer_type T S b' = Inr (p, b') \<and>
                declare_pointer_type_id tid S b' = (p, b') \<and>
                declare_pointer_type invalid T S b' = Inr (p, b'))"
proof -
  have err: "declare_pointer_type invalid T S b =
           Inl (InternalError ''SPIRV: Attempted to lookup pointer type for undeclared base type!'')"
    using u by (simp add: declare_pointer_type_def lookup_pointer_type_def)
  from a obtain tid b1 where d: "declare_type T 1 b = Inr (tid, b1)"
    and ap: "add_pointer_type_id tid S b1 = (p, b')"
    by (auto simp: add_pointer_type_def split: sum.splits)
  have at: "add_type T 1 b = Inr (tid, b1)" using declare_type_cases[OF d] u by auto
  have e2: "kind_ext b1 b'" using add_pointer_type_id_ext[OF ap] .
  have l1: "length (kind_map b1) < 2 ^ 32" using kind_ext_length[OF e2] l by simp
  have w1: "wf_builder b1" using add_type_wf[OF w at l1] .
  have c: "ids_consecutive (kind_map b)" using w by (simp add: wf_builder_def)
  have n: "map_of (type_map b) (make_type_key T 1) = None" using u by (simp add: lookup_type_def)
  have fr: "tid \<notin> fst ` set (kind_map b)" and in1: "tid \<in> fst ` set (kind_map b1)"
    using add_type_fresh[OF at n c l1] by auto
  have in': "tid \<in> fst ` set (kind_map b')" using in1 kind_ext_keys[OF e2] by blast
  have t1: "lookup_type b1 T 1 = Some tid" using declare_type_registers[OF d] .
  have t': "lookup_type b' T 1 = Some tid"
    using t1 add_pointer_type_id_wf(5)[OF w1 ap l] by (simp add: lookup_type_def)
  have pk: "lookup_pointer_type_id b' tid S = Some p"
    using add_pointer_type_id_wf(2)[OF w1 ap l] by (simp add: lookup_pointer_type_id_def)
  have bk: "lookup_base_type b' p = Some tid"
    using add_pointer_type_id_wf(3)[OF w1 ap l] by (simp add: lookup_base_type_def)
  have again_id: "add_pointer_type_id tid S b' = (p, b')"
    using pk by (simp add: add_pointer_type_id_def lookup_pointer_type_id_def)
  have again: "add_pointer_type T S b' = Inr (p, b')"
    using t' again_id by (simp add: add_pointer_type_def declare_type_def)
  have again_d: "declare_pointer_type_id tid S b' = (p, b')"
    using pk by (simp add: declare_pointer_type_id_def)
  have again_t: "declare_pointer_type invalid T S b' = Inr (p, b')"
    using t' pk by (simp add: declare_pointer_type_def lookup_pointer_type_def)
  show ?thesis using err fr in' t' pk bk again again_d again_t by blast
qed

theorem add_pointer_type_declares_base_witness:
  "wf_builder reset \<and> lookup_type reset (Int_t 32 1) 1 = None \<and>
   (case add_pointer_type (Int_t 32 1) 7 reset of
      Inl e \<Rightarrow> False
    | Inr (p, b') \<Rightarrow> p = 3 \<and> lookup_type b' (Int_t 32 1) 1 = Some 2 \<and>
                     lookup_base_type b' p = Some 2 \<and>
                     declare_pointer_type 0xFFFFFFFF (Int_t 32 1) 7 b' = Inr (p, b'))"
proof -
  have u: "lookup_type reset (Int_t 32 1) 1 = None"
    by (simp add: lookup_type_def reset_def make_id_def Let_def)
  obtain p b' where a: "add_pointer_type (Int_t 32 1) 7 reset = Inr (p, b')"
    and lb: "length (kind_map b') = 3" and p: "p = 3"
    and t: "lookup_type b' (Int_t 32 1) 1 = Some 2"
    by (simp add: add_pointer_type_def add_pointer_type_id_def reset_def make_id_def
        declare_type_def lookup_type_def update_conv'
        add_type.simps Let_def Int_t_def is_vector_def is_handle_def is_bool_def is_float_def
        is_int_or_uint_def is_int_def is_uint_def)
  have l: "length (kind_map b') < 2 ^ 32" using lb by simp
  show ?thesis
    using add_pointer_type_declares_base[OF wf_reset u a l, of "0xFFFFFFFF"] wf_reset u a p t
    by auto
qed

text \<open>
  Claim C6 as stated fails: on a fresh builder, declaring a pointer to the undeclared type
  \<open>Int(32)\<close> in storage class \<open>Function\<close> (7) does not declare the base type but raises
  the internal error of \<open>lookup_pointer_type\<close>.
\<close>

theorem declare_pointer_type_undeclared_base_counterexample:
  "lookup_type reset (Int_t 32 1) 1 = None \<and>
   declare_pointer_type 0xFFFFFFFF (Int_t 32 1) 7 reset =
     Inl (InternalError ''SPIRV: Attempted to lookup pointer type for undeclared base type!'')"
  by (simp add: declare_pointer_type_def lookup_pointer_type_def lookup_type_def reset_def
      make_id_def Let_def)

section \<open>Properties of the emitter's loops\<close>

subsection \<open>Workgroup size\<close>

lemma sint_word_of_int32: "int32_range v \<Longrightarrow> sint (word_of_int v :: 32 word) = v"
  unfolding int32_range_def sint_sbintrunc'
  by (rule signed_take_bit_int_eq_self) simp_all

lemma word_of_int_inj32:
  assumes "int32_range v" "int32_range w" "(word_of_int v :: 32 word) = word_of_int w"
  shows "v = w"
proof -
  from assms(3) have "sint (word_of_int v :: 32 word) = sint (word_of_int w :: 32 word)"
    by (rule arg_cong)
  then show ?thesis
    unfolding sint_word_of_int32[OF assms(1)] sint_word_of_int32[OF assms(2)] .
qed

lemma thread_loop_workgroup_index_range:
  "thread_loop_workgroup_index name = int d \<Longrightarrow> d < 3"
  by (auto simp: thread_loop_workgroup_index_def split: if_splits)

lemma vfw_IntImm:
  assumes "for_type = GPUBlock \<or> for_type = GPUThread" "is_const_zero mn"
    "thread_loop_workgroup_index name = int d"
  shows "visit_For_workgroup_size is_const_zero name mn (IntImm t v) for_type ws =
           (if ws ! d = 0 \<or> ws ! d = word_of_int v then Inr (ws[d := word_of_int v])
            else Inl (UserError ''Vulkan requires all kernels have the same workgroup size, but two different ones were encountered''))"
  using assms by (simp add: visit_For_workgroup_size_def Let_def)


lemma vfw_not_IntImm:
  assumes "for_type = GPUBlock \<or> for_type = GPUThread" "is_const_zero mn"
    "thread_loop_workgroup_index name = int d" "\<forall>t v. extent \<noteq> IntImm t v"
  shows "visit_For_workgroup_size is_const_zero name mn extent for_type ws =
           Inl (UserError ''Vulkan requires statically-known workgroup size.'')"
  using assms by (cases extent) (simp_all add: visit_For_workgroup_size_def Let_def)


text \<open>
  Claim C9.  While a kernel is emitted, a \<open>For\<close> loop over a GPU variable whose name maps
  to workgroup dimension \<open>d\<close> must have an immediate (statically known) extent; if the
  extent recorded for \<open>d\<close> by an earlier loop is nonzero and differs from this loop's
  extent, compilation fails with a user error; otherwise the extent is recorded for \<open>d\<close>.
  Extents are 32-bit signed immediates.
\<close>

theorem workgroup_size_validated:
  assumes ft: "for_type = GPUBlock \<or> for_type = GPUThread"
    and z: "is_const_zero mn"
    and d: "thread_loop_workgroup_index name = int d"
  shows "((\<forall>t v. extent \<noteq> IntImm t v) \<longrightarrow>
            visit_For_workgroup_size is_const_zero name mn extent for_type ws =
              Inl (UserError ''Vulkan requires statically-known workgroup size.'')) \<and>
         (\<forall>t v v0. extent = IntImm t v \<and> int32_range v \<and> int32_range v0 \<and>
              ws ! d = word_of_int v0 \<and> v0 \<noteq> 0 \<and> v \<noteq> v0 \<longrightarrow>
            visit_For_workgroup_size is_const_zero name mn extent for_type ws =
              Inl (UserError ''Vulkan requires all kernels have the same workgroup size, but two different ones were encountered'')) \<and>
         (\<forall>t v. extent = IntImm t v \<and> (ws ! d = 0 \<or> ws ! d = word_of_int v) \<longrightarrow>
            visit_For_workgroup_size is_const_zero name mn extent for_type ws =
              Inr (ws[d := word_of_int v]))"
proof (intro conjI allI impI)
  assume "\<forall>t v. extent \<noteq> IntImm t v"
  then show "visit_For_workgroup_size is_const_zero name mn extent for_type ws =
              Inl (UserError ''Vulkan requires statically-known workgroup size.'')"
    using vfw_not_IntImm[where is_const_zero=is_const_zero and mn=mn, OF ft z d] by blast
next
  fix t v v0
  assume h: "extent = IntImm t v \<and> int32_range v \<and> int32_range v0 \<and>
              ws ! d = word_of_int v0 \<and> v0 \<noteq> 0 \<and> v \<noteq> v0"
  have r0: "int32_range 0" by (simp add: int32_range_def)
  have "(word_of_int v0 :: 32 word) \<noteq> word_of_int v"
    using word_of_int_inj32[of v0 v] h by blast
  moreover have "(word_of_int v0 :: 32 word) \<noteq> word_of_int 0"
    using word_of_int_inj32[of v0 0] h r0 by blast
  moreover have e: "ws ! d = word_of_int v0" using h by blast
  moreover have "word_of_int 0 = (0 :: 32 word)" by simp
  ultimately have "\<not> (ws ! d = 0 \<or> ws ! d = word_of_int v)" by metis
  then show "visit_For_workgroup_size is_const_zero name mn extent for_type ws =
              Inl (UserError ''Vulkan requires all kernels have the same workgroup size, but two different ones were encountered'')"
    using h by (simp only: vfw_IntImm[where is_const_zero=is_const_zero and mn=mn, OF ft z d] if_False)
next
  fix t v
  assume h: "extent = IntImm t v \<and> (ws ! d = 0 \<or> ws ! d = word_of_int v)"
  then show "visit_For_workgroup_size is_const_zero name mn extent for_type ws =
              Inr (ws[d := word_of_int v])"
    by (simp only: vfw_IntImm[where is_const_zero=is_const_zero and mn=mn, OF ft z d] if_True)
qed

theorem workgroup_size_validated_witness:
  "thread_loop_workgroup_index ''f.s0.x.__thread_id_x'' = 0 \<and>
   visit_For_workgroup_size (\<lambda>e. e = IntImm (Int_t 32 1) 0) ''f.s0.x.__thread_id_x''
     (IntImm (Int_t 32 1) 0) (Variable (Int_t 32 1) ''n'') GPUThread [0, 0, 0] =
       Inl (UserError ''Vulkan requires statically-known workgroup size.'') \<and>
   visit_For_workgroup_size (\<lambda>e. e = IntImm (Int_t 32 1) 0) ''f.s0.x.__thread_id_x''
     (IntImm (Int_t 32 1) 0) (IntImm (Int_t 32 1) 32) GPUThread [64, 0, 0] =
       Inl (UserError ''Vulkan requires all kernels have the same workgroup size, but two different ones were encountered'') \<and>
   visit_For_workgroup_size (\<lambda>e. e = IntImm (Int_t 32 1) 0) ''f.s0.x.__thread_id_x''
     (IntImm (Int_t 32 1) 0) (IntImm (Int_t 32 1) 64) GPUThread [0, 0, 0] = Inr [64, 0, 0]"
proof -
  let ?izc = "\<lambda>e. e = IntImm (Int_t 32 1) 0"
  let ?z = "IntImm (Int_t 32 1) 0"
  have d: "thread_loop_workgroup_index ''f.s0.x.__thread_id_x'' = int 0"
    by (simp add: thread_loop_workgroup_index_def ends_with_def)
  have ft: "GPUThread = GPUBlock \<or> GPUThread = GPUThread" by simp
  have z: "?izc ?z" by simp
  note th = workgroup_size_validated[where is_const_zero="?izc" and mn="?z", OF ft z d]
  have a: "\<forall>t v. Variable (Int_t 32 1) ''n'' \<noteq> IntImm t v" by simp
  have p1: "visit_For_workgroup_size ?izc ''f.s0.x.__thread_id_x'' ?z
        (Variable (Int_t 32 1) ''n'') GPUThread [0, 0, 0] =
       Inl (UserError ''Vulkan requires statically-known workgroup size.'')"
    using th[of "Variable (Int_t 32 1) ''n''" "[0, 0, 0]"] a by blast
  have b: "IntImm (Int_t 32 1) 32 = IntImm (Int_t 32 1) 32 \<and> int32_range 32 \<and> int32_range 64 \<and>
       [64, 0, 0 :: 32 word] ! 0 = word_of_int 64 \<and> (64 :: int) \<noteq> 0 \<and> (32 :: int) \<noteq> 64"
    by (simp add: int32_range_def)
  have p2: "visit_For_workgroup_size ?izc ''f.s0.x.__thread_id_x'' ?z
        (IntImm (Int_t 32 1) 32) GPUThread [64, 0, 0] =
       Inl (UserError ''Vulkan requires all kernels have the same workgroup size, but two different ones were encountered'')"
    using th[of "IntImm (Int_t 32 1) 32" "[64, 0, 0]"] b by blast
  have c: "IntImm (Int_t 32 1) 64 = IntImm (Int_t 32 1) 64 \<and>
       ([0, 0, 0 :: 32 word] ! 0 = 0 \<or> [0, 0, 0 :: 32 word] ! 0 = word_of_int 64)"
    by simp
  have "visit_For_workgroup_size ?izc ''f.s0.x.__thread_id_x'' ?z
        (IntImm (Int_t 32 1) 64) GPUThread [0, 0, 0] = Inr ([0, 0, 0][0 := word_of_int 64])"
    using th[of "IntImm (Int_t 32 1) 64" "[0, 0, 0]"] c by blast
  then have p3: "visit_For_workgroup_size ?izc ''f.s0.x.__thread_id_x'' ?z
        (IntImm (Int_t 32 1) 64) GPUThread [0, 0, 0] = Inr [64, 0, 0]"
    by simp
  show ?thesis using d p1 p2 p3 by simp
qed

subsection \<open>Serial loops\<close>



lemma op_codes [simp]:
  "op_code (integer_add t r a b) = SpvOpIAdd"
  "op_code (branch l) = SpvOpBranch"
  "op_code (conditional_branch c t f []) = SpvOpBranchConditional"
  by (simp_all add: integer_add_def binary_op_def branch_def conditional_branch_def
      add_operand_def set_result_id_def set_type_id_def SpvInstruction_make_def)









































section \<open>Properties of the lowerer and of the recognizer\<close>

lemma type_of_intrin [simp]: "type_of (intrin t op args) = t"
  by (simp add: intrin_def)

text \<open>
  Claim C5, as amended.  The reference lowering of \<open>widening_sub(x, y)\<close> has twice the
  bit width and the lanes of \<open>x\<close>; its type code is that of \<open>x\<close>, except that for unsigned
  \<open>x\<close> it is the signed integer code.
\<close>

theorem lower_widening_sub_type:
  "Type.code (type_of (lower_widening_sub x y)) =
     (if Type.code (type_of x) = halide_type_uint then halide_type_int
      else Type.code (type_of x)) \<and>
   bits (type_of (lower_widening_sub x y)) = bits (type_of x) * 2 \<and>
   lanes (type_of (lower_widening_sub x y)) = lanes (type_of x)"
  by (simp add: lower_widening_sub_def Let_def widen_t_def with_bits_def with_code_def is_uint_def)

text \<open>
  Claim C5 as stated fails for unsigned operands: the lowering of \<open>widening_sub\<close> of two
  \<open>u8x8\<close> variables has the type \<open>i16x8\<close>, not the widened unsigned type \<open>u16x8\<close>.
\<close>

theorem lower_widening_sub_unsigned_counterexample:
  "type_of (lower_widening_sub (Variable (UInt_t 8 8) ''x'') (Variable (UInt_t 8 8) ''y'')) =
     Int_t 16 8 \<and>
   widen_t (type_of (Variable (UInt_t 8 8) ''x'')) = UInt_t 16 8 \<and>
   Int_t 16 8 \<noteq> UInt_t 16 8"
  by (simp add: lower_widening_sub_def Let_def widen_t_def with_bits_def with_code_def is_uint_def
      UInt_t_def Int_t_def)

lemma lower_intrinsic_semantically_wide:
  assumes "op \<in> {Call_saturating_add, Call_saturating_sub, Call_rounding_shift_right,
                  Call_rounding_shift_left, Call_halving_add, Call_halving_sub,
                  Call_rounding_halving_add, Call_mul_shift_right}"
    and "32 < bits t"
  shows "lower_intrinsic_semantically h t (Intrinsic op) args =
         lower_intrinsic h t (Intrinsic op) args"
  using assms
  by (auto simp add: lower_intrinsic_semantically_def lower_intrinsic_def args2_def args3_def
      split: list.splits)

lemma lower_intrinsic_semantically_rounding_mul_wide:
  assumes "16 < bits t"
  shows "lower_intrinsic_semantically h t (Intrinsic Call_rounding_mul_shift_right) args =
         lower_intrinsic h t (Intrinsic Call_rounding_mul_shift_right) args"
  using assms
  by (auto simp add: lower_intrinsic_semantically_def lower_intrinsic_def args3_def
      split: list.splits)

lemma lower_intrinsic_semantically_widening:
  assumes "op \<in> {Call_widen_right_add, Call_widen_right_mul, Call_widen_right_sub,
                  Call_widening_add, Call_widening_mul, Call_widening_sub,
                  Call_widening_shift_left, Call_widening_shift_right, Call_saturating_cast}"
  shows "lower_intrinsic_semantically h t (Intrinsic op) args =
         lower_intrinsic h t (Intrinsic op) args"
  using assms
  by (auto simp add: lower_intrinsic_semantically_def lower_intrinsic_def
      lower_widen_right_add_def lower_widen_right_mul_def lower_widen_right_sub_def)

text \<open>
  Claim C2, as amended.  For every higher-order intrinsic of the emitter's list, the
  expression the emitter builds and visits is the result of \<open>lower_intrinsic\<close>.  It is the
  result of \<open>lower_intrinsic_semantically\<close> as well for the widening and widen-right
  operations, the widening shifts and \<open>saturating_cast\<close>, and for the other intrinsics when
  the result type has more than 32 bits (16 for \<open>rounding_mul_shift_right\<close>), where the
  reference path itself calls \<open>lower_intrinsic\<close>.
\<close>

theorem visit_Call_lowers_with_lower_intrinsic:
  assumes "op \<in> set higher_order_intrinsics"
  shows "visit_Call_lowered h t (Intrinsic op) args = lower_intrinsic h t (Intrinsic op) args \<and>
         (op \<in> {Call_widen_right_add, Call_widen_right_mul, Call_widen_right_sub,
                 Call_widening_add, Call_widening_mul, Call_widening_sub,
                 Call_widening_shift_left, Call_widening_shift_right, Call_saturating_cast} \<or>
          (if op = Call_rounding_mul_shift_right then 16 < bits t else 32 < bits t)
          \<longrightarrow> lower_intrinsic h t (Intrinsic op) args =
               lower_intrinsic_semantically h t (Intrinsic op) args)"
proof
  show "visit_Call_lowered h t (Intrinsic op) args = lower_intrinsic h t (Intrinsic op) args"
    using assms by (auto simp add: visit_Call_lowered_def higher_order_intrinsics_def)
next
  show "op \<in> {Call_widen_right_add, Call_widen_right_mul, Call_widen_right_sub,
                 Call_widening_add, Call_widening_mul, Call_widening_sub,
                 Call_widening_shift_left, Call_widening_shift_right, Call_saturating_cast} \<or>
          (if op = Call_rounding_mul_shift_right then 16 < bits t else 32 < bits t)
          \<longrightarrow> lower_intrinsic h t (Intrinsic op) args =
               lower_intrinsic_semantically h t (Intrinsic op) args"
  proof
    assume h: "op \<in> {Call_widen_right_add, Call_widen_right_mul, Call_widen_right_sub,
                 Call_widening_add, Call_widening_mul, Call_widening_sub,
                 Call_widening_shift_left, Call_widening_shift_right, Call_saturating_cast} \<or>
          (if op = Call_rounding_mul_shift_right then 16 < bits t else 32 < bits t)"
    consider (w) "op \<in> {Call_widen_right_add, Call_widen_right_mul, Call_widen_right_sub,
                 Call_widening_add, Call_widening_mul, Call_widening_sub,
                 Call_widening_shift_left, Call_widening_shift_right, Call_saturating_cast}"
      | (r) "op = Call_rounding_mul_shift_right" "16 < bits t"
      | (o) "op \<in> {Call_saturating_add, Call_saturating_sub, Call_rounding_shift_right,
                  Call_rounding_shift_left, Call_halving_add, Call_halving_sub,
                  Call_rounding_halving_add, Call_mul_shift_right}" "32 < bits t"
      using h assms by (auto simp add: higher_order_intrinsics_def split: if_splits)
    then show "lower_intrinsic h t (Intrinsic op) args =
               lower_intrinsic_semantically h t (Intrinsic op) args"
    proof cases
      case w
      then show ?thesis by (rule lower_intrinsic_semantically_widening[symmetric])
    next
      case r
      then show ?thesis
        using lower_intrinsic_semantically_rounding_mul_wide[of t h args] by simp
    next
      case o
      then show ?thesis by (rule lower_intrinsic_semantically_wide[symmetric])
    qed
  qed
qed

theorem visit_Call_lowers_with_lower_intrinsic_witness:
  "visit_Call_lowered example_collaborators (UInt_t 16 8) (Intrinsic Call_widening_add)
       [Variable (UInt_t 8 8) ''x'', Variable (UInt_t 8 8) ''y''] =
     Inr (Some (Add (Cast (UInt_t 16 8) (Variable (UInt_t 8 8) ''x''))
                    (Cast (UInt_t 16 8) (Variable (UInt_t 8 8) ''y'')))) \<and>
   lower_intrinsic_semantically example_collaborators (UInt_t 16 8) (Intrinsic Call_widening_add)
       [Variable (UInt_t 8 8) ''x'', Variable (UInt_t 8 8) ''y''] =
     Inr (Some (Add (Cast (UInt_t 16 8) (Variable (UInt_t 8 8) ''x''))
                    (Cast (UInt_t 16 8) (Variable (UInt_t 8 8) ''y''))))"
  using visit_Call_lowers_with_lower_intrinsic[of Call_widening_add example_collaborators
      "UInt_t 16 8" "[Variable (UInt_t 8 8) ''x'', Variable (UInt_t 8 8) ''y'']"]
  by (simp add: higher_order_intrinsics_def lower_intrinsic_def args2_def lower_widening_add_def
      widen_def widen_t_def with_bits_def UInt_t_def)

text \<open>
  Claim C2 as stated fails: for \<open>halving_add\<close> of two \<open>u8x8\<close> variables the emitter visits
  \<open>(x & y) + ((x ^ y) >> 1)\<close>, the result of \<open>lower_intrinsic\<close>, whereas
  \<open>lower_intrinsic_semantically\<close> gives \<open>narrow((widen(x) + widen(y)) / 2)\<close>.
\<close>

theorem visit_Call_halving_add_counterexample:
  "visit_Call_lowered example_collaborators (UInt_t 8 8) (Intrinsic Call_halving_add)
       [Variable (UInt_t 8 8) ''x'', Variable (UInt_t 8 8) ''y''] =
     Inr (Some (Add (Call (UInt_t 8 8) (Intrinsic Call_bitwise_and)
                       [Variable (UInt_t 8 8) ''x'', Variable (UInt_t 8 8) ''y''])
                    (Call (UInt_t 8 8) (Intrinsic Call_shift_right)
                       [Call (UInt_t 8 8) (Intrinsic Call_bitwise_xor)
                          [Variable (UInt_t 8 8) ''x'', Variable (UInt_t 8 8) ''y''],
                        Broadcast (UIntImm (UInt_t 8 1) 1) 8]))) \<and>
   lower_intrinsic_semantically example_collaborators (UInt_t 8 8) (Intrinsic Call_halving_add)
       [Variable (UInt_t 8 8) ''x'', Variable (UInt_t 8 8) ''y''] =
     Inr (Some (Cast (UInt_t 8 8)
                  (Div (Add (Cast (UInt_t 16 8) (Variable (UInt_t 8 8) ''x''))
                            (Cast (UInt_t 16 8) (Variable (UInt_t 8 8) ''y'')))
                       (Broadcast (UIntImm (UInt_t 16 1) 2) 8)))) \<and>
   visit_Call_lowered example_collaborators (UInt_t 8 8) (Intrinsic Call_halving_add)
       [Variable (UInt_t 8 8) ''x'', Variable (UInt_t 8 8) ''y''] \<noteq>
   lower_intrinsic_semantically example_collaborators (UInt_t 8 8) (Intrinsic Call_halving_add)
       [Variable (UInt_t 8 8) ''x'', Variable (UInt_t 8 8) ''y'']"
  by (simp add: visit_Call_lowered_def higher_order_intrinsics_def lower_intrinsic_def
      lower_intrinsic_semantically_def args2_def lower_halving_add_def bitwise_and_def
      bitwise_xor_def shift_right_def shift_amount_def make_const_def lit_def intrin_def
      narrow_def widen_def narrow_t_def widen_t_def with_bits_def element_of_def with_lanes_def
      is_int_def is_uint_def UInt_t_def Let_def)

text \<open>
  Claim C1 fails at this input.  The shift amount is a positive constant, the first operand
  is signed and \<open>is_safe_for_add\<close> accepts it, because one operand of its addition is a
  widening cast; \<open>lower_intrinsic\<close> therefore returns \<open>(a + round) >> b\<close>, whose addition is
  done in 16 bits and wraps: the lowering evaluates to \<open>-16384\<close>, the intrinsic to \<open>16384\<close>.
\<close>

theorem lower_rounding_shift_right_wraps:
  "is_safe_for_add example_sum \<and>
   lower_intrinsic example_collaborators (Int_t 16 1) (Intrinsic Call_rounding_shift_right)
       [example_sum, UIntImm (UInt_t 16 1) 1] =
     Inr (Some (Call (Int_t 16 1) (Intrinsic Call_shift_right)
                  [Add example_sum
                     (Cast (Int_t 16 1)
                        (Call (Int_t 32 1) (Intrinsic Call_shift_left)
                           [IntImm (Int_t 32 1) 1,
                            Sub (UIntImm (UInt_t 16 1) 1) (UIntImm (UInt_t 16 1) 1)])),
                   UIntImm (UInt_t 16 1) 1])) \<and>
   eval_expr example_values
     (Call (Int_t 16 1) (Intrinsic Call_rounding_shift_right)
        [example_sum, UIntImm (UInt_t 16 1) 1]) = Some 16384 \<and>
   eval_expr example_values
     (Call (Int_t 16 1) (Intrinsic Call_shift_right)
                  [Add example_sum
                     (Cast (Int_t 16 1)
                        (Call (Int_t 32 1) (Intrinsic Call_shift_left)
                           [IntImm (Int_t 32 1) 1,
                            Sub (UIntImm (UInt_t 16 1) 1) (UIntImm (UInt_t 16 1) 1)])),
                   UIntImm (UInt_t 16 1) 1]) = Some (- 16384)"
proof -
  have s: "is_safe_for_add example_sum"
    by (simp add: is_safe_for_add_def example_sum_def Int_t_def)
  have t: "type_of example_sum = Int_t 16 1" by (simp add: example_sum_def)
  have l: "lower_intrinsic example_collaborators (Int_t 16 1) (Intrinsic Call_rounding_shift_right)
       [example_sum, UIntImm (UInt_t 16 1) 1] =
     Inr (Some (Call (Int_t 16 1) (Intrinsic Call_shift_right)
                  [Add example_sum
                     (Cast (Int_t 16 1)
                        (Call (Int_t 32 1) (Intrinsic Call_shift_left)
                           [IntImm (Int_t 32 1) 1,
                            Sub (UIntImm (UInt_t 16 1) 1) (UIntImm (UInt_t 16 1) 1)])),
                   UIntImm (UInt_t 16 1) 1]))"
    by (simp add: lower_intrinsic_def args2_def lower_rounding_shift_right_def Let_def s t
        example_collaborators_def shift_right_def shift_left_def intrin_def cast_def lit_def
        make_const_def is_uint_def is_int_def Int_t_def UInt_t_def element_of_def with_lanes_def)
  have v: "eval_expr example_values example_sum = Some 32767"
    by (simp add: example_sum_def example_values_def arith_def wrap_def is_int_def Int_t_def
        signed_take_bit_eq_take_bit_minus take_bit_eq_mod bit_iff_odd)
  have e1: "eval_expr example_values
     (Call (Int_t 16 1) (Intrinsic Call_rounding_shift_right)
        [example_sum, UIntImm (UInt_t 16 1) 1]) = Some 16384"
    by (simp add: v eval_call_def wrap_def is_int_def Int_t_def
        signed_take_bit_eq_take_bit_minus take_bit_eq_mod bit_iff_odd)
  have e2: "eval_expr example_values
     (Call (Int_t 16 1) (Intrinsic Call_shift_right)
                  [Add example_sum
                     (Cast (Int_t 16 1)
                        (Call (Int_t 32 1) (Intrinsic Call_shift_left)
                           [IntImm (Int_t 32 1) 1,
                            Sub (UIntImm (UInt_t 16 1) 1) (UIntImm (UInt_t 16 1) 1)])),
                   UIntImm (UInt_t 16 1) 1]) = Some (- 16384)"
    by (simp add: v t eval_call_def arith_def shift_value_def wrap_def is_int_def Int_t_def UInt_t_def
        signed_take_bit_eq_take_bit_minus take_bit_eq_mod bit_iff_odd)
  show ?thesis using s l e1 e2 by simp
qed








end
